theory Spec2Isabelle
  imports Main
begin

section \<open>Python strings\<close>

text \<open>
  A Python \<open>str\<close> is a sequence of Unicode code points; it is modelled as a list of
  natural numbers, one per code point. The literals of the script are ASCII apart from two
  symbols (U+274C and U+2705), so they are written with \<open>u\<close>, which maps an ASCII literal
  to its code points.
\<close>

type_synonym pystr = "nat list"

definition u :: "string \<Rightarrow> pystr" where
  "u s = map of_char s"

text \<open>\<open>s.startswith(p)\<close>, and \<open>sub in s\<close> for strings (a contiguous occurrence).\<close>

fun starts_with :: "'a list \<Rightarrow> 'a list \<Rightarrow> bool" where
  "starts_with [] s = True"
| "starts_with (p # ps) [] = False"
| "starts_with (p # ps) (c # cs) = (p = c \<and> starts_with ps cs)"

fun contains :: "'a list \<Rightarrow> 'a list \<Rightarrow> bool" where
  "contains sub [] = (sub = [])"
| "contains sub (c # cs) = (starts_with sub (c # cs) \<or> contains sub cs)"

text \<open>\<open>str(n)\<close> for an integer: decimal digits, with a leading minus sign below zero.\<close>

fun digits :: "nat \<Rightarrow> pystr" where
  "digits n = (if n < 10 then [48 + n] else digits (n div 10) @ [48 + n mod 10])"

definition str_int :: "int \<Rightarrow> pystr" where
  "str_int i = (if i < 0 then u ''-'' @ digits (nat (- i)) else digits (nat i))"

section \<open>Static tables\<close>

text \<open>The set \<open>COMPLETED_STORIES\<close> of the script.\<close>

definition COMPLETED_STORIES :: "pystr set" where
  "COMPLETED_STORIES =
     {u ''US-001'', u ''US-002'', u ''US-003'', u ''US-004'', u ''US-019''}"

text \<open>
  An entry of \<open>STORY_METADATA\<close> is a dictionary with the keys \<open>sprint\<close> and \<open>sp\<close>
  (integers) and \<open>category\<close> (a string). The dictionary handed to \<open>get_labels\<close> is such an
  entry or the empty dictionary, so a field is \<open>None\<close> when its key is missing.
\<close>

record metadata =
  sprint :: "int option"
  sp :: "int option"
  category :: "pystr option"

definition empty_metadata :: metadata where
  "empty_metadata = \<lparr>sprint = None, sp = None, category = None\<rparr>"

definition entry :: "int \<Rightarrow> int \<Rightarrow> string \<Rightarrow> metadata" where
  "entry s p c = \<lparr>sprint = Some s, sp = Some p, category = Some (u c)\<rparr>"

definition STORY_METADATA :: "(pystr \<times> metadata) list" where
  "STORY_METADATA =
    [(u ''US-001'', entry 1 3 ''Core Package''),
     (u ''US-002'', entry 1 5 ''Core Package''),
     (u ''US-003'', entry 3 5 ''Core Package''),
     (u ''US-004'', entry 2 8 ''Core Package''),
     (u ''US-005'', entry 1 5 ''Core Package''),
     (u ''US-006'', entry 2 8 ''Core Package''),
     (u ''US-007'', entry 5 3 ''Core Package''),
     (u ''US-008'', entry 5 5 ''Core Package''),
     (u ''US-009'', entry 2 5 ''Core Package''),
     (u ''US-010'', entry 3 5 ''Core Package''),
     (u ''US-011'', entry 5 5 ''Core Package''),
     (u ''US-012'', entry 3 8 ''Core Package''),
     (u ''US-013'', entry 4 5 ''Core Package''),
     (u ''US-014'', entry 6 8 ''Core Package''),
     (u ''US-015'', entry 6 5 ''Core Package''),
     (u ''US-016'', entry 4 5 ''Core Package''),
     (u ''US-017'', entry 5 3 ''Core Package''),
     (u ''US-018'', entry 4 5 ''Core Package''),
     (u ''US-019'', entry 6 5 ''Extension Package''),
     (u ''US-020'', entry 7 3 ''Extension Package''),
     (u ''US-021'', entry 7 5 ''Extension Package''),
     (u ''US-022'', entry 7 8 ''Extension Package''),
     (u ''US-023'', entry 8 3 ''Extension Package''),
     (u ''US-024'', entry 8 5 ''Extension Package''),
     (u ''US-025'', entry 8 5 ''Extension Package''),
     (u ''US-026'', entry 9 30 ''Testing & Samples''),
     (u ''US-027'', entry 10 13 ''Testing & Samples''),
     (u ''US-028'', entry 10 13 ''Testing & Samples''),
     (u ''US-029'', entry 10 8 ''Documentation''),
     (u ''US-030'', entry 10 3 ''Documentation'')]"

text \<open>\<open>STORY_METADATA.get(story_id, {})\<close>.\<close>

definition metadata_for :: "pystr \<Rightarrow> metadata" where
  "metadata_for story_id =
     (case map_of STORY_METADATA story_id of
        None \<Rightarrow> empty_metadata
      | Some m \<Rightarrow> m)"

section \<open>The label deriver\<close>

text \<open>
  The test \<open>sprint and sprint <= k\<close>: a missing key gives \<open>None\<close>, which is false, and so
  is the integer zero.
\<close>

definition sprint_upto :: "int option \<Rightarrow> int \<Rightarrow> bool" where
  "sprint_upto v k = (case v of None \<Rightarrow> False | Some n \<Rightarrow> n \<noteq> 0 \<and> n \<le> k)"

text \<open>
  \<open>get_labels\<close>, statement by statement; each \<open>labels.append(x)\<close> is \<open>labels @ [x]\<close>.
  The tests \<open>if sp:\<close> and \<open>if sprint:\<close> fail on a missing key and on zero, and
  \<open>metadata.get("category", "")\<close> is the empty string when the key is missing.
\<close>

definition get_labels :: "pystr \<Rightarrow> metadata \<Rightarrow> pystr list" where
  "get_labels story_id metadata =
    (let labels0 = [u ''user-story''];
         labels1 =
           (if story_id \<in> COMPLETED_STORIES then labels0 @ [u ''status:complete'']
            else labels0 @ [u ''status:not-started'']);
         labels2 =
           (case sp metadata of
              None \<Rightarrow> labels1
            | Some n \<Rightarrow> if n \<noteq> 0 then labels1 @ [u ''sp-'' @ str_int n] else labels1);
         labels3 =
           (case sprint metadata of
              None \<Rightarrow> labels2
            | Some n \<Rightarrow> if n \<noteq> 0 then labels2 @ [u ''sprint-'' @ str_int n] else labels2);
         cat = (case category metadata of None \<Rightarrow> [] | Some c \<Rightarrow> c);
         labels4 =
           (if contains (u ''Core Package'') cat then labels3 @ [u ''core-package'']
            else if contains (u ''Extension Package'') cat
              then labels3 @ [u ''extension-package'']
            else if contains (u ''Testing'') cat \<or> contains (u ''Samples'') cat
              then labels3 @ [u ''testing'']
            else if contains (u ''Documentation'') cat then labels3 @ [u ''documentation'']
            else labels3)
     in if sprint_upto (sprint metadata) 2 then labels4 @ [u ''priority:p0'']
        else if sprint_upto (sprint metadata) 4 then labels4 @ [u ''priority:p1'']
        else if sprint_upto (sprint metadata) 8 then labels4 @ [u ''priority:p2'']
        else labels4 @ [u ''priority:p3''])"

text \<open>The kinds of label, told apart by their text.\<close>

definition is_status_token :: "pystr \<Rightarrow> bool" where
  "is_status_token l = starts_with (u ''status:'') l"

definition is_priority_token :: "pystr \<Rightarrow> bool" where
  "is_priority_token l = starts_with (u ''priority:'') l"

definition is_category_token :: "pystr \<Rightarrow> bool" where
  "is_category_token l =
     (l = u ''core-package'' \<or> l = u ''extension-package''
      \<or> l = u ''testing'' \<or> l = u ''documentation'')"

text \<open>
  The parts the result is made of, named for the proofs: the status label, the label of
  a number field (\<open>sp-\<close> or \<open>sprint-\<close>), the label of the category and the priority label.
\<close>

definition status_label :: "pystr \<Rightarrow> pystr" where
  "status_label story_id =
     (if story_id \<in> COMPLETED_STORIES then u ''status:complete'' else u ''status:not-started'')"

definition number_labels :: "string \<Rightarrow> int option \<Rightarrow> pystr list" where
  "number_labels pre v =
     (case v of None \<Rightarrow> [] | Some n \<Rightarrow> if n \<noteq> 0 then [u pre @ str_int n] else [])"

definition category_labels :: "pystr \<Rightarrow> pystr list" where
  "category_labels cat =
     (if contains (u ''Core Package'') cat then [u ''core-package'']
      else if contains (u ''Extension Package'') cat then [u ''extension-package'']
      else if contains (u ''Testing'') cat \<or> contains (u ''Samples'') cat then [u ''testing'']
      else if contains (u ''Documentation'') cat then [u ''documentation'']
      else [])"

definition priority_label :: "int option \<Rightarrow> pystr" where
  "priority_label s =
     (if sprint_upto s 2 then u ''priority:p0''
      else if sprint_upto s 4 then u ''priority:p1''
      else if sprint_upto s 8 then u ''priority:p2''
      else u ''priority:p3'')"

section \<open>Character classes and string methods\<close>

text \<open>
  The white space of \<open>str.isspace\<close>, \<open>str.strip\<close> and of \<open>\s\<close> in a pattern over \<open>str\<close>.
\<close>

definition py_isspace :: "nat \<Rightarrow> bool" where
  "py_isspace c =
     ((0x09 \<le> c \<and> c \<le> 0x0D) \<or> (0x1C \<le> c \<and> c \<le> 0x20) \<or> c = 0x85 \<or> c = 0xA0
      \<or> c = 0x1680 \<or> (0x2000 \<le> c \<and> c \<le> 0x200A) \<or> c = 0x2028 \<or> c = 0x2029
      \<or> c = 0x202F \<or> c = 0x205F \<or> c = 0x3000)"

text \<open>
  The decimal digits of \<open>\d\<close> in a pattern over \<open>str\<close> (Unicode category Nd, version 14):
  blocks given by their first code point and their size.
\<close>

definition decimal_blocks :: "(nat \<times> nat) list" where
  "decimal_blocks =
    [(0x30, 10), (0x660, 10), (0x6F0, 10), (0x7C0, 10), (0x966, 10), (0x9E6, 10),
     (0xA66, 10), (0xAE6, 10), (0xB66, 10), (0xBE6, 10), (0xC66, 10), (0xCE6, 10),
     (0xD66, 10), (0xDE6, 10), (0xE50, 10), (0xED0, 10), (0xF20, 10), (0x1040, 10),
     (0x1090, 10), (0x17E0, 10), (0x1810, 10), (0x1946, 10), (0x19D0, 10), (0x1A80, 10),
     (0x1A90, 10), (0x1B50, 10), (0x1BB0, 10), (0x1C40, 10), (0x1C50, 10), (0xA620, 10),
     (0xA8D0, 10), (0xA900, 10), (0xA9D0, 10), (0xA9F0, 10), (0xAA50, 10), (0xABF0, 10),
     (0xFF10, 10), (0x104A0, 10), (0x10D30, 10), (0x11066, 10), (0x110F0, 10),
     (0x11136, 10), (0x111D0, 10), (0x112F0, 10), (0x11450, 10), (0x114D0, 10),
     (0x11650, 10), (0x116C0, 10), (0x11730, 10), (0x118E0, 10), (0x11950, 10),
     (0x11C50, 10), (0x11D50, 10), (0x11DA0, 10), (0x16A60, 10), (0x16AC0, 10),
     (0x16B50, 10), (0x1D7CE, 50), (0x1E140, 10), (0x1E2F0, 10), (0x1E950, 10),
     (0x1FBF0, 10)]"

definition py_isdecimal :: "nat \<Rightarrow> bool" where
  "py_isdecimal c = list_ex (\<lambda>(lo, n). lo \<le> c \<and> c < lo + n) decimal_blocks"

text \<open>\<open>s.strip()\<close>.\<close>

definition py_strip :: "pystr \<Rightarrow> pystr" where
  "py_strip s = rev (dropWhile py_isspace (rev (dropWhile py_isspace s)))"

text \<open>
  \<open>s.split(sep)\<close> for a separator of one character: the pieces between the separators,
  at least one piece. With the newline as separator these are the lines at whose ends
  \<open>^\<close> and \<open>$\<close> match under \<open>re.MULTILINE\<close>.
\<close>

fun split_on :: "nat \<Rightarrow> pystr \<Rightarrow> pystr list" where
  "split_on sep [] = [[]]"
| "split_on sep (c # cs) =
     (if c = sep then [] # split_on sep cs
      else (case split_on sep cs of
              [] \<Rightarrow> [[c]]
            | l # ls \<Rightarrow> (c # l) # ls))"

text \<open>\<open>sep.join(parts)\<close>.\<close>

fun join :: "pystr \<Rightarrow> pystr list \<Rightarrow> pystr" where
  "join sep [] = []"
| "join sep [x] = x"
| "join sep (x # y # ys) = x @ sep @ join sep (y # ys)"

text \<open>
  \<open>Path.stem\<close> of a path whose last component is \<open>name\<close>: the name up to its last dot,
  when that dot is neither the first nor the last character.
\<close>

definition path_stem :: "pystr \<Rightarrow> pystr" where
  "path_stem name =
     (let ext = rev (takeWhile (\<lambda>c. c \<noteq> 0x2E) (rev name))
      in if 0x2E \<in> set name \<and> ext \<noteq> [] \<and> length ext + 1 < length name
         then take (length name - length ext - 1) name
         else name)"

section \<open>The regular expressions of the story parser\<close>

text \<open>
  Each search of the parser is written out as the function its pattern computes under
  Python's leftmost, backtracking \<open>re.search\<close>; the result is the captured group, or
  \<open>None\<close> when there is no match.
\<close>

text \<open>
  \<open>^# (US-\d+): (.+)$\<close> with \<open>re.MULTILINE\<close>, on one line: the line is \<open># US-\<close>, one
  or more decimal digits, a colon and a space, and at least one more character, which
  (with the rest of the line) is group 2. A dot matches no newline, and a line has none.
\<close>

definition match_title_line :: "pystr \<Rightarrow> pystr option" where
  "match_title_line l =
     (if starts_with (u ''# US-'') l then
        (let r = drop 5 l;
             r' = dropWhile py_isdecimal r
         in if takeWhile py_isdecimal r \<noteq> [] \<and> starts_with (u '': '') r' \<and> drop 2 r' \<noteq> []
            then Some (drop 2 r') else None)
      else None)"

fun first_match :: "('a \<Rightarrow> 'b option) \<Rightarrow> 'a list \<Rightarrow> 'b option" where
  "first_match f [] = None"
| "first_match f (x # xs) = (case f x of None \<Rightarrow> first_match f xs | Some y \<Rightarrow> Some y)"

definition search_title :: "pystr \<Rightarrow> pystr option" where
  "search_title content = first_match match_title_line (split_on 0x0A content)"

text \<open>
  \<open>\*\*Label\*\*: (.+)\<close> without flags, where \<open>lbl\<close> is the literal text up to and
  including the space: the leftmost occurrence of \<open>lbl\<close> that is followed by a character
  other than a newline; group 1 runs to the end of that line.
\<close>

fun search_field :: "pystr \<Rightarrow> pystr \<Rightarrow> pystr option" where
  "search_field lbl [] = None"
| "search_field lbl (c # cs) =
     (let v = takeWhile (\<lambda>x. x \<noteq> 0x0A) (drop (length lbl) (c # cs))
      in if starts_with lbl (c # cs) \<and> v \<noteq> [] then Some v else search_field lbl cs)"

text \<open>
  The lazy group \<open>(.*?)(?=\n## |\Z)\<close> with \<open>re.DOTALL\<close>: the shortest text after which
  a newline and \<open>## \<close> follow, or the string ends.
\<close>

fun lazy_capture :: "pystr \<Rightarrow> pystr" where
  "lazy_capture [] = []"
| "lazy_capture (c # cs) =
     (if starts_with (u ''\<newline>## '') (c # cs) then [] else c # lazy_capture cs)"

text \<open>
  \<open>## Heading\s*\n(.*?)(?=\n## |\Z)\<close> with \<open>re.DOTALL\<close>, where \<open>h\<close> is the literal
  \<open>## Heading\<close>: the leftmost occurrence of \<open>h\<close> whose following run of white space
  holds a newline. The greedy \<open>\s*\<close> gives characters back until \<open>\n\<close> matches, which is
  at the last newline of the run; the group starts right after it.
\<close>

fun search_section :: "pystr \<Rightarrow> pystr \<Rightarrow> pystr option" where
  "search_section h [] = None"
| "search_section h (c # cs) =
     (let r = drop (length h) (c # cs);
          ws = takeWhile py_isspace r
      in if starts_with h (c # cs) \<and> 0x0A \<in> set ws
         then Some (lazy_capture
                      (rev (takeWhile (\<lambda>x. x \<noteq> 0x0A) (rev ws)) @ dropWhile py_isspace r))
         else search_section h cs)"

section \<open>The story parser\<close>

text \<open>
  A story file: the last component of its path, and its text as \<open>read_text\<close> decodes it,
  \<open>None\<close> when the file cannot be read or decoded.
\<close>

record story_file =
  filename :: pystr
  text_of :: "pystr option"

datatype error = ReadError | KeyError | TypeError | ValueError

text \<open>The pairs of \<open>section_patterns\<close>: the key and the heading of its pattern.\<close>

definition section_patterns :: "(pystr \<times> pystr) list" where
  "section_patterns =
    [(u ''description'', u ''## Description''),
     (u ''acceptance_criteria'', u ''## Acceptance Criteria''),
     (u ''technical_requirements'', u ''## Technical Requirements''),
     (u ''testing_requirements'', u ''## Testing Requirements''),
     (u ''performance_requirements'', u ''## Performance Requirements''),
     (u ''dependencies'', u ''## Dependencies''),
     (u ''definition_of_done'', u ''## Definition of Done''),
     (u ''notes'', u ''## Notes''),
     (u ''related_docs'', u ''## Related Documentation'')]"

text \<open>\<open>group(1) if match else default\<close>.\<close>

definition group_or :: "pystr option \<Rightarrow> pystr \<Rightarrow> pystr" where
  "group_or m d = (case m of None \<Rightarrow> d | Some g \<Rightarrow> g)"

text \<open>One round of the loop over \<open>section_patterns\<close>.\<close>

definition extract_section ::
  "pystr \<Rightarrow> pystr \<times> pystr \<Rightarrow> (pystr \<rightharpoonup> pystr) \<Rightarrow> (pystr \<rightharpoonup> pystr)" where
  "extract_section content p sections =
     (case search_section (snd p) content of
        Some g \<Rightarrow> sections(fst p \<mapsto> py_strip g)
      | None \<Rightarrow> sections(fst p \<mapsto> []))"

text \<open>The body of \<open>parse_markdown_file\<close> after the file is read.\<close>

definition parse_content :: "pystr \<Rightarrow> pystr \<Rightarrow> (pystr \<rightharpoonup> pystr)" where
  "parse_content stem content =
     (let story_id = join (u ''-'') (take 2 (split_on 0x2D stem));
          title = group_or (search_title content) (u ''Unknown Title'');
          sections = Map.empty
            (u ''story_id'' \<mapsto> story_id,
             u ''title'' \<mapsto> title,
             u ''status'' \<mapsto>
               group_or (search_field (u ''**Status**: '') content) (0x274C # u '' Not Started''),
             u ''category'' \<mapsto> group_or (search_field (u ''**Category**: '') content) (u ''Unknown''),
             u ''effort'' \<mapsto> group_or (search_field (u ''**Effort**: '') content) (u ''Unknown''),
             u ''sprint'' \<mapsto> group_or (search_field (u ''**Sprint**: '') content) (u ''Unknown''))
      in fold (extract_section content) section_patterns sections)"

definition parse_markdown_file :: "story_file \<Rightarrow> error + (pystr \<rightharpoonup> pystr)" where
  "parse_markdown_file filepath =
     (case text_of filepath of
        None \<Rightarrow> Inl ReadError
      | Some content \<Rightarrow> Inr (parse_content (path_stem (filename filepath)) content))"

text \<open>
  Title extraction as the specification words it, for comparison with \<open>search_title\<close>:
  the first line that is a level-1 heading with the story's own identifier, a colon and
  descriptive text gives the title, and \<open>Unknown Title\<close> stands in when there is none.
\<close>

definition claimed_title_line :: "pystr \<Rightarrow> pystr \<Rightarrow> pystr option" where
  "claimed_title_line story_id l =
     (let p = u ''# '' @ story_id @ u '': ''
      in if starts_with p l \<and> drop (length p) l \<noteq> [] then Some (drop (length p) l)
         else None)"

definition claimed_title :: "pystr \<Rightarrow> pystr \<Rightarrow> pystr" where
  "claimed_title story_id content =
     group_or (first_match (claimed_title_line story_id) (split_on 0x0A content))
       (u ''Unknown Title'')"


section \<open>The issue body\<close>

text \<open>
  One statement of \<open>generate_issue_body\<close>: \<open>if sections.get(key): body_parts.append(...)\<close>,
  where the appended block is \<open>## Heading\<close>, an empty line and the section's text. The
  test fails on a missing key and on the empty string.
\<close>

definition append_section ::
  "(pystr \<rightharpoonup> pystr) \<Rightarrow> string \<Rightarrow> string \<Rightarrow> pystr list \<Rightarrow> pystr list" where
  "append_section sections key heading body_parts =
     (case sections (u key) of
        None \<Rightarrow> body_parts
      | Some v \<Rightarrow>
          if v \<noteq> [] then body_parts @ [u ''## '' @ u heading @ u ''\<newline>\<newline>'' @ v]
          else body_parts)"

definition generate_issue_body :: "(pystr \<rightharpoonup> pystr) \<Rightarrow> pystr" where
  "generate_issue_body sections =
     (let body_parts = [];
          body_parts = append_section sections ''description'' ''Description'' body_parts;
          body_parts =
            append_section sections ''acceptance_criteria'' ''Acceptance Criteria'' body_parts;
          body_parts =
            append_section sections ''technical_requirements'' ''Technical Requirements''
              body_parts;
          body_parts =
            append_section sections ''testing_requirements'' ''Testing Requirements'' body_parts;
          body_parts =
            append_section sections ''performance_requirements'' ''Performance Requirements''
              body_parts;
          body_parts = append_section sections ''dependencies'' ''Dependencies'' body_parts;
          body_parts =
            append_section sections ''definition_of_done'' ''Definition of Done'' body_parts;
          body_parts = append_section sections ''notes'' ''Notes'' body_parts;
          body_parts =
            append_section sections ''related_docs'' ''Related Documentation'' body_parts
      in join (u ''\<newline>\<newline>'') body_parts)"

text \<open>
  The assembly as the specification words it: the keys and headings in canonical order,
  the block of a section, and the blocks of the sections that are present (a key that is
  missing or holds the empty string has none).
\<close>

definition canonical_sections :: "(string \<times> string) list" where
  "canonical_sections =
    [(''description'', ''Description''),
     (''acceptance_criteria'', ''Acceptance Criteria''),
     (''technical_requirements'', ''Technical Requirements''),
     (''testing_requirements'', ''Testing Requirements''),
     (''performance_requirements'', ''Performance Requirements''),
     (''dependencies'', ''Dependencies''),
     (''definition_of_done'', ''Definition of Done''),
     (''notes'', ''Notes''),
     (''related_docs'', ''Related Documentation'')]"

definition section_block :: "string \<Rightarrow> pystr \<Rightarrow> pystr" where
  "section_block heading v = u ''## '' @ u heading @ u ''\<newline>\<newline>'' @ v"

definition blocks_of :: "(pystr \<rightharpoonup> pystr) \<Rightarrow> string \<times> string \<Rightarrow> pystr list" where
  "blocks_of sections p =
     (case sections (u (fst p)) of
        None \<Rightarrow> []
      | Some v \<Rightarrow> if v = [] then [] else [section_block (snd p) v])"

definition present_blocks :: "(pystr \<rightharpoonup> pystr) \<Rightarrow> pystr list" where
  "present_blocks sections = concat (map (blocks_of sections) canonical_sections)"

section \<open>The label deriver on dictionaries of arbitrary values\<close>

text \<open>
  The signature of \<open>get_labels\<close> takes \<open>Dict[str, any]\<close>, and on values of other types than
  those of \<open>STORY_METADATA\<close> its statements can raise. This second model takes the
  dictionary as a map to values that are \<open>None\<close>, an integer or a string, and returns
  the exception or the list.
\<close>

datatype pyval = PyNone | PyInt int | PyStr pystr

text \<open>The truth value of \<open>if v:\<close>.\<close>

definition truthy :: "pyval \<Rightarrow> bool" where
  "truthy v = (case v of PyNone \<Rightarrow> False | PyInt i \<Rightarrow> i \<noteq> 0 | PyStr s \<Rightarrow> s \<noteq> [])"

text \<open>
  The text of \<open>{v}\<close> in an f-string. The conversion of an integer to decimal raises
  \<open>ValueError\<close> when the integer has more digits than the interpreter's limit, which is
  4300 unless it is reconfigured; the script leaves it alone.
\<close>

definition max_str_digits :: nat where
  "max_str_digits = 4300"

definition format_value :: "pyval \<Rightarrow> error + pystr" where
  "format_value v =
     (case v of
        PyNone \<Rightarrow> Inr (u ''None'')
      | PyInt i \<Rightarrow>
          if max_str_digits < length (digits (nat \<bar>i\<bar>)) then Inl ValueError
          else Inr (str_int i)
      | PyStr s \<Rightarrow> Inr s)"

text \<open>\<open>metadata.get(key)\<close>, and \<open>metadata.get(key, "")\<close>.\<close>

definition dict_get :: "(pystr \<rightharpoonup> pyval) \<Rightarrow> pystr \<Rightarrow> pyval" where
  "dict_get d k = (case d k of None \<Rightarrow> PyNone | Some v \<Rightarrow> v)"

definition dict_get_or_empty :: "(pystr \<rightharpoonup> pyval) \<Rightarrow> pystr \<Rightarrow> pyval" where
  "dict_get_or_empty d k = (case d k of None \<Rightarrow> PyStr [] | Some v \<Rightarrow> v)"

text \<open>\<open>if v: labels.append(f"pre{v}")\<close>.\<close>

definition number_step :: "string \<Rightarrow> pyval \<Rightarrow> pystr list \<Rightarrow> error + pystr list" where
  "number_step pre v labels =
     (if truthy v then
        (case format_value v of
           Inl e \<Rightarrow> Inl e
         | Inr s \<Rightarrow> Inr (labels @ [u pre @ s]))
      else Inr labels)"

text \<open>
  The category tests. \<open>"Core Package" in category\<close> raises \<open>TypeError\<close> when the category
  is \<open>None\<close> or an integer, and that is the first test.
\<close>

definition category_step :: "pyval \<Rightarrow> pystr list \<Rightarrow> error + pystr list" where
  "category_step category_v labels =
     (case category_v of
        PyStr cat \<Rightarrow>
          Inr (if contains (u ''Core Package'') cat then labels @ [u ''core-package'']
               else if contains (u ''Extension Package'') cat
                 then labels @ [u ''extension-package'']
               else if contains (u ''Testing'') cat \<or> contains (u ''Samples'') cat
                 then labels @ [u ''testing'']
               else if contains (u ''Documentation'') cat then labels @ [u ''documentation'']
               else labels)
      | PyNone \<Rightarrow> Inl TypeError
      | PyInt i \<Rightarrow> Inl TypeError)"

text \<open>
  The priority tests \<open>sprint and sprint <= k\<close>. A sprint that is false skips every
  comparison; otherwise the first comparison \<open>sprint <= 2\<close> raises \<open>TypeError\<close> when the
  sprint is a string.
\<close>

definition priority_step :: "pyval \<Rightarrow> pystr list \<Rightarrow> error + pystr list" where
  "priority_step sprint_v labels =
     (if \<not> truthy sprint_v then Inr (labels @ [u ''priority:p3''])
      else (case sprint_v of
              PyInt i \<Rightarrow>
                Inr (if i \<le> 2 then labels @ [u ''priority:p0'']
                     else if i \<le> 4 then labels @ [u ''priority:p1'']
                     else if i \<le> 8 then labels @ [u ''priority:p2'']
                     else labels @ [u ''priority:p3''])
            | PyNone \<Rightarrow> Inl TypeError
            | PyStr s \<Rightarrow> Inl TypeError))"

definition get_labels_dict :: "pystr \<Rightarrow> (pystr \<rightharpoonup> pyval) \<Rightarrow> error + pystr list" where
  "get_labels_dict story_id metadata =
     (let labels0 = [u ''user-story''];
          labels1 =
            (if story_id \<in> COMPLETED_STORIES then labels0 @ [u ''status:complete'']
             else labels0 @ [u ''status:not-started'']);
          sp_v = dict_get metadata (u ''sp'')
      in case number_step ''sp-'' sp_v labels1 of
           Inl e \<Rightarrow> Inl e
         | Inr labels2 \<Rightarrow>
             (let sprint_v = dict_get metadata (u ''sprint'')
              in case number_step ''sprint-'' sprint_v labels2 of
                   Inl e \<Rightarrow> Inl e
                 | Inr labels3 \<Rightarrow>
                     (let category_v = dict_get_or_empty metadata (u ''category'')
                      in case category_step category_v labels3 of
                           Inl e \<Rightarrow> Inl e
                         | Inr labels4 \<Rightarrow> priority_step sprint_v labels4)))"

text \<open>
  The dictionaries of the data model: \<open>sp\<close> and \<open>sprint\<close>, when present, are integers
  within the digit limit, and \<open>category\<close>, when present, is a string. Such a dictionary
  read as a \<open>metadata\<close> record.
\<close>

definition int_field :: "pyval option \<Rightarrow> bool" where
  "int_field v =
     (case v of
        None \<Rightarrow> True
      | Some PyNone \<Rightarrow> False
      | Some (PyInt i) \<Rightarrow> length (digits (nat \<bar>i\<bar>)) \<le> max_str_digits
      | Some (PyStr s) \<Rightarrow> False)"

definition str_field :: "pyval option \<Rightarrow> bool" where
  "str_field v =
     (case v of
        None \<Rightarrow> True
      | Some PyNone \<Rightarrow> False
      | Some (PyInt i) \<Rightarrow> False
      | Some (PyStr s) \<Rightarrow> True)"

definition typed_dict :: "(pystr \<rightharpoonup> pyval) \<Rightarrow> bool" where
  "typed_dict d =
     (int_field (d (u ''sp'')) \<and> int_field (d (u ''sprint'')) \<and> str_field (d (u ''category'')))"

definition as_int :: "pyval option \<Rightarrow> int option" where
  "as_int v = (case v of Some (PyInt i) \<Rightarrow> Some i | _ \<Rightarrow> None)"

definition as_str :: "pyval option \<Rightarrow> pystr option" where
  "as_str v = (case v of Some (PyStr s) \<Rightarrow> Some s | _ \<Rightarrow> None)"

definition as_metadata :: "(pystr \<rightharpoonup> pyval) \<Rightarrow> metadata" where
  "as_metadata d =
     \<lparr>sprint = as_int (d (u ''sprint'')), sp = as_int (d (u ''sp'')),
      category = as_str (d (u ''category''))\<rparr>"

section \<open>The directory run and the entry point\<close>

text \<open>
  What the program does to the outside, in order: a line it prints, a listing of the
  user-stories directory by \<open>glob("US-*.md")\<close>, and the reading of a story file.
\<close>

datatype event = Print pystr | Glob | ReadText pystr

text \<open>
  The user-stories directory as the program meets it: its path as printed, whether it
  exists, and the files that \<open>glob("US-*.md")\<close> yields.
\<close>

record directory =
  dir_path :: pystr
  dir_exists :: bool
  dir_glob :: "story_file list"

text \<open>
  \<open>sorted\<close> on paths of one directory: by file name, compared code point by code point;
  the sort is stable.
\<close>

fun str_less :: "pystr \<Rightarrow> pystr \<Rightarrow> bool" where
  "str_less [] [] = False"
| "str_less [] (y # ys) = True"
| "str_less (x # xs) [] = False"
| "str_less (x # xs) (y # ys) = (x < y \<or> (x = y \<and> str_less xs ys))"

fun insert_file :: "story_file \<Rightarrow> story_file list \<Rightarrow> story_file list" where
  "insert_file f [] = [f]"
| "insert_file f (g # gs) =
     (if str_less (filename g) (filename f) then g # insert_file f gs else f # g # gs)"

definition sorted_files :: "story_file list \<Rightarrow> story_file list" where
  "sorted_files fs = foldr insert_file fs []"

text \<open>
  One round of the loop of \<open>create_issues_from_directory\<close>: the events of the round, and
  the exception that ends it, if any. \<open>sections["story_id"]\<close> and \<open>sections["title"]\<close>
  raise on a missing key. With \<open>dry_run\<close> false the round's \<open>try\<close> block does nothing.
\<close>

definition process_story :: "story_file \<Rightarrow> bool \<Rightarrow> event list \<times> error option" where
  "process_story story_file dry_run =
     (case parse_markdown_file story_file of
        Inl e \<Rightarrow> ([ReadText (filename story_file)], Some e)
      | Inr sections \<Rightarrow>
          (case sections (u ''story_id'') of
             None \<Rightarrow> ([ReadText (filename story_file)], Some KeyError)
           | Some story_id \<Rightarrow>
               (case sections (u ''title'') of
                  None \<Rightarrow> ([ReadText (filename story_file)], Some KeyError)
                | Some title \<Rightarrow>
                    (let metadata = metadata_for story_id;
                         labels = get_labels story_id metadata;
                         issue_title = u ''[USER STORY]: '' @ story_id @ u '' - '' @ title;
                         issue_body = generate_issue_body sections
                     in ([ReadText (filename story_file),
                          Print (replicate 80 0x3D),
                          Print (u ''Story: '' @ story_id),
                          Print (u ''Title: '' @ issue_title),
                          Print (u ''Labels: '' @ join (u '', '') labels),
                          Print (u ''Status: '' @
                            (if story_id \<in> COMPLETED_STORIES then 0x2705 # u '' COMPLETE''
                             else 0x274C # u '' NOT STARTED'')),
                          Print (u ''Body length: '' @ str_int (int (length issue_body))
                            @ u '' characters'')]
                         @ (if dry_run then [Print (u ''DRY RUN - Would create issue'')] else [])
                         @ [Print []],
                         None)))))"

fun process_stories :: "story_file list \<Rightarrow> bool \<Rightarrow> event list \<times> error option" where
  "process_stories [] dry_run = ([], None)"
| "process_stories (f # fs) dry_run =
     (case process_story f dry_run of
        (evs, Some e) \<Rightarrow> (evs, Some e)
      | (evs, None) \<Rightarrow>
          (case process_stories fs dry_run of (evs', r) \<Rightarrow> (evs @ evs', r)))"

definition create_issues_from_directory ::
  "directory \<Rightarrow> bool \<Rightarrow> event list \<times> error option" where
  "create_issues_from_directory user_stories_dir dry_run =
     (if \<not> dry_run then
        ([Print (u ''ERROR: GitHub API integration not yet enabled''),
          Print (u ''To enable:''),
          Print (u ''1. Uncomment the PyGithub import at the top''),
          Print (u ''2. Uncomment the GitHub API code below''),
          Print (u ''3. Set GITHUB_TOKEN environment variable''),
          Print (u ''4. Run with --no-dry-run flag'')], None)
      else
        (let story_files = sorted_files (dir_glob user_stories_dir)
         in case process_stories story_files dry_run of
              (evs, r) \<Rightarrow>
                ([Glob,
                  Print (u ''Found '' @ str_int (int (length story_files))
                    @ u '' user story files\<newline>'')] @ evs, r)))"

text \<open>
  How a run ends: \<open>main\<close> returns, \<open>sys.exit(n)\<close> ends the process with status \<open>n\<close>, or
  an exception nobody catches ends it.
\<close>

datatype outcome = Returned | Exited int | Uncaught error

definition main :: "directory \<Rightarrow> pystr list \<Rightarrow> event list \<times> outcome" where
  "main user_stories_dir argv =
     (if \<not> dir_exists user_stories_dir then
        ([Print (u ''ERROR: User stories directory not found: '' @ dir_path user_stories_dir)],
         Exited 1)
      else
        (let dry_run = (u ''--no-dry-run'' \<notin> set argv);
             banner =
               (if dry_run then
                  [Print (replicate 80 0x3D),
                   Print (u ''DRY RUN MODE - No issues will be created''),
                   Print (u ''Run with --no-dry-run to actually create issues''),
                   Print (replicate 80 0x3D),
                   Print []]
                else []);
             total = int (length (dir_glob user_stories_dir))
         in case create_issues_from_directory user_stories_dir dry_run of
              (evs, Some e) \<Rightarrow> (banner @ evs, Uncaught e)
            | (evs, None) \<Rightarrow>
                (banner @ evs @
                 [Print (0x0A # replicate 80 0x3D),
                  Print (u ''Summary:''),
                  Glob,
                  Print (u ''- Total stories: '' @ str_int total),
                  Print (u ''- Completed stories: '' @ str_int (int (card COMPLETED_STORIES))),
                  Glob,
                  Print (u ''- Not started stories: ''
                    @ str_int (total - int (card COMPLETED_STORIES))),
                  Print (replicate 80 0x3D)],
                 Returned)))"

section \<open>Properties of the label deriver\<close>

text \<open>Appending under a test is appending what the test selects.\<close>

lemma append_status: "(if c then L @ [a] else L @ [b]) = L @ [if c then a else b]"
  by simp

lemma append_number:
  "(case v of None \<Rightarrow> L | Some n \<Rightarrow> if n \<noteq> 0 then L @ [u pre @ str_int n] else L)
     = L @ number_labels pre v"
  by (simp add: number_labels_def split: option.splits)

lemma append_category:
  "(if c1 then L @ [a] else if c2 then L @ [b] else if c3 then L @ [c]
    else if c4 then L @ [d] else L)
   = L @ (if c1 then [a] else if c2 then [b] else if c3 then [c] else if c4 then [d] else [])"
  by simp

lemma append_priority:
  "(if c1 then L @ [a] else if c2 then L @ [b] else if c3 then L @ [c] else L @ [d])
   = L @ [if c1 then a else if c2 then b else if c3 then c else d]"
  by simp

lemma get_labels_parts:
  "get_labels sid md =
     u ''user-story'' # status_label sid # number_labels ''sp-'' (sp md)
       @ number_labels ''sprint-'' (sprint md)
       @ category_labels (case category md of None \<Rightarrow> [] | Some c \<Rightarrow> c)
       @ [priority_label (sprint md)]"
  unfolding get_labels_def Let_def append_status append_number append_category append_priority
    status_label_def category_labels_def priority_label_def
  by (simp only: append_Cons append_Nil append_assoc)

lemma starts_with_iff: "starts_with p s \<longleftrightarrow> (\<exists>r. s = p @ r)"
  by (induction p s rule: starts_with.induct) auto

lemma contains_iff: "contains sub s \<longleftrightarrow> (\<exists>ps ss. s = ps @ sub @ ss)"
proof (induction s)
  case Nil
  then show ?case by auto
next
  case (Cons c cs)
  show ?case
  proof
    assume "contains sub (c # cs)"
    then consider "starts_with sub (c # cs)" | "contains sub cs" by auto
    then show "\<exists>ps ss. c # cs = ps @ sub @ ss"
    proof cases
      case 1
      then obtain r where "c # cs = sub @ r" by (auto simp: starts_with_iff)
      then have "c # cs = [] @ sub @ r" by simp
      then show ?thesis by blast
    next
      case 2
      then obtain ps ss where "cs = ps @ sub @ ss" using Cons.IH by auto
      then have "c # cs = (c # ps) @ sub @ ss" by simp
      then show ?thesis by blast
    qed
  next
    assume "\<exists>ps ss. c # cs = ps @ sub @ ss"
    then obtain ps ss where eq: "c # cs = ps @ sub @ ss" by auto
    show "contains sub (c # cs)"
    proof (cases ps)
      case Nil
      then have "starts_with sub (c # cs)" using eq by (auto simp: starts_with_iff)
      then show ?thesis by simp
    next
      case (Cons p ps')
      then have "cs = ps' @ sub @ ss" using eq by simp
      then have "contains sub cs" using Cons.IH by blast
      then show ?thesis by simp
    qed
  qed
qed

lemma status_label_cases:
  "status_label sid = u ''status:complete'' \<or> status_label sid = u ''status:not-started''"
  by (simp add: status_label_def)

lemma priority_label_cases:
  "priority_label s \<in> {u ''priority:p0'', u ''priority:p1'', u ''priority:p2'', u ''priority:p3''}"
  by (simp add: priority_label_def)

lemma category_labels_cases:
  "category_labels c = [] \<or> category_labels c = [u ''core-package'']
   \<or> category_labels c = [u ''extension-package''] \<or> category_labels c = [u ''testing'']
   \<or> category_labels c = [u ''documentation'']"
  by (simp add: category_labels_def)

lemma number_labels_cases:
  "number_labels pre v = [] \<or> (\<exists>r. number_labels pre v = [u pre @ r])"
  by (simp add: number_labels_def split: option.splits)

lemma status_token_base: "\<not> is_status_token (u ''user-story'')"
  by (simp add: is_status_token_def u_def)

lemma status_token_status: "is_status_token (status_label sid)"
  using status_label_cases [of sid] by (auto simp: is_status_token_def u_def)

lemma status_token_sp: "filter is_status_token (number_labels ''sp-'' v) = []"
  using number_labels_cases [of "''sp-''" v] by (auto simp: is_status_token_def u_def)

lemma status_token_sprint: "filter is_status_token (number_labels ''sprint-'' v) = []"
  using number_labels_cases [of "''sprint-''" v] by (auto simp: is_status_token_def u_def)

lemma status_token_category: "filter is_status_token (category_labels c) = []"
  using category_labels_cases [of c] by (auto simp: is_status_token_def u_def)

lemma status_token_priority: "\<not> is_status_token (priority_label s)"
  using priority_label_cases [of s] by (auto simp: is_status_token_def u_def)

lemma filter_status:
  "filter is_status_token (get_labels sid md) = [status_label sid]"
  by (simp add: get_labels_parts status_token_base status_token_status status_token_sp
      status_token_sprint status_token_category status_token_priority)

lemma priority_token_base: "\<not> is_priority_token (u ''user-story'')"
  by (simp add: is_priority_token_def u_def)

lemma priority_token_status: "\<not> is_priority_token (status_label sid)"
  using status_label_cases [of sid] by (auto simp: is_priority_token_def u_def)

lemma priority_token_sp: "filter is_priority_token (number_labels ''sp-'' v) = []"
  using number_labels_cases [of "''sp-''" v] by (auto simp: is_priority_token_def u_def)

lemma priority_token_sprint: "filter is_priority_token (number_labels ''sprint-'' v) = []"
  using number_labels_cases [of "''sprint-''" v] by (auto simp: is_priority_token_def u_def)

lemma priority_token_category: "filter is_priority_token (category_labels c) = []"
  using category_labels_cases [of c] by (auto simp: is_priority_token_def u_def)

lemma priority_token_priority: "is_priority_token (priority_label s)"
  using priority_label_cases [of s] by (auto simp: is_priority_token_def u_def)

lemma filter_priority:
  "filter is_priority_token (get_labels sid md) = [priority_label (sprint md)]"
  by (simp add: get_labels_parts priority_token_base priority_token_status priority_token_sp
      priority_token_sprint priority_token_category priority_token_priority)

lemma category_token_base: "\<not> is_category_token (u ''user-story'')"
  by (simp add: is_category_token_def u_def)

lemma category_token_status: "\<not> is_category_token (status_label sid)"
  using status_label_cases [of sid] by (auto simp: is_category_token_def u_def)

lemma category_token_sp: "filter is_category_token (number_labels ''sp-'' v) = []"
  using number_labels_cases [of "''sp-''" v] by (auto simp: is_category_token_def u_def)

lemma category_token_sprint: "filter is_category_token (number_labels ''sprint-'' v) = []"
  using number_labels_cases [of "''sprint-''" v] by (auto simp: is_category_token_def u_def)

lemma category_token_category: "filter is_category_token (category_labels c) = category_labels c"
  using category_labels_cases [of c] by (auto simp: is_category_token_def)

lemma category_token_priority: "\<not> is_category_token (priority_label s)"
  using priority_label_cases [of s] by (auto simp: is_category_token_def u_def)

lemma filter_category:
  "filter is_category_token (get_labels sid md) =
     category_labels (case category md of None \<Rightarrow> [] | Some c \<Rightarrow> c)"
  by (simp add: get_labels_parts category_token_base category_token_status category_token_sp
      category_token_sprint category_token_category category_token_priority)

lemma take3_status: "take 3 (status_label sid) = u ''sta''"
  using status_label_cases [of sid] by (auto simp: u_def)

lemma take3_priority: "take 3 (priority_label s) = u ''pri''"
  using priority_label_cases [of s] by (auto simp: u_def)

lemma take3_sp:
  "map (take 3) (number_labels ''sp-'' v) = [] \<or> map (take 3) (number_labels ''sp-'' v) = [u ''sp-'']"
  using number_labels_cases [of "''sp-''" v] by (auto simp: u_def)

lemma take3_sprint:
  "map (take 3) (number_labels ''sprint-'' v) = []
   \<or> map (take 3) (number_labels ''sprint-'' v) = [u ''spr'']"
  using number_labels_cases [of "''sprint-''" v] by (auto simp: u_def)

lemma take3_category:
  "map (take 3) (category_labels c) = [] \<or> map (take 3) (category_labels c) = [u ''cor'']
   \<or> map (take 3) (category_labels c) = [u ''ext''] \<or> map (take 3) (category_labels c) = [u ''tes'']
   \<or> map (take 3) (category_labels c) = [u ''doc'']"
  using category_labels_cases [of c] by (auto simp: u_def)

lemma distinct_take3: "distinct (map (take 3) (get_labels sid md))"
proof -
  have base: "take 3 (u ''user-story'') = u ''use''" by (simp add: u_def)
  show ?thesis
    using take3_sp [of "sp md"] take3_sprint [of "sprint md"]
      take3_category [of "case category md of None \<Rightarrow> [] | Some c \<Rightarrow> c"]
    unfolding get_labels_parts
    by (auto simp: base take3_status take3_priority u_def)
qed

lemma distinct_labels: "distinct (get_labels sid md)"
  using distinct_take3 [of sid md] by (simp add: distinct_map)

lemma length_number_labels: "length (number_labels pre v) \<le> 1"
  by (simp add: number_labels_def split: option.splits)

lemma length_category_labels: "length (category_labels c) \<le> 1"
  by (simp add: category_labels_def)

lemma length_labels: "3 \<le> length (get_labels sid md) \<and> length (get_labels sid md) \<le> 6"
  using length_number_labels [of "''sp-''" "sp md"] length_number_labels [of "''sprint-''" "sprint md"]
    length_category_labels [of "case category md of None \<Rightarrow> [] | Some c \<Rightarrow> c"]
  by (simp add: get_labels_parts)

text \<open>
  C3: for every identifier and every metadata dictionary the result holds exactly one
  status token; it is \<open>status:complete\<close> when the identifier is in \<open>COMPLETED_STORIES\<close> and
  \<open>status:not-started\<close> otherwise, whatever the metadata holds.
\<close>

theorem status_token_exactly_one:
  "filter is_status_token (get_labels story_id metadata) =
     [if story_id \<in> COMPLETED_STORIES then u ''status:complete'' else u ''status:not-started'']
   \<and> filter is_status_token (get_labels story_id metadata)
       = filter is_status_token (get_labels story_id metadata')"
  by (simp add: filter_status status_label_def)

lemma sprint_upto_Some: "sprint_upto (Some n) k \<longleftrightarrow> n \<noteq> 0 \<and> n \<le> k"
  by (simp add: sprint_upto_def)

lemma sprint_upto_None: "\<not> sprint_upto None k"
  by (simp add: sprint_upto_def)

text \<open>
  C2: the priority token follows the sprint: sprint 1 or 2 gives \<open>priority:p0\<close>, 3 or 4
  gives \<open>priority:p1\<close>, 5 to 8 gives \<open>priority:p2\<close>, 9 or 10 gives \<open>priority:p3\<close>, and a
  missing sprint gives \<open>priority:p3\<close>; every result holds exactly one priority token.
\<close>

theorem priority_by_sprint:
  "(sprint metadata = Some 1 \<or> sprint metadata = Some 2 \<longrightarrow>
      filter is_priority_token (get_labels story_id metadata) = [u ''priority:p0''])
   \<and> (sprint metadata = Some 3 \<or> sprint metadata = Some 4 \<longrightarrow>
      filter is_priority_token (get_labels story_id metadata) = [u ''priority:p1''])
   \<and> ((\<exists>n. sprint metadata = Some n \<and> 5 \<le> n \<and> n \<le> 8) \<longrightarrow>
      filter is_priority_token (get_labels story_id metadata) = [u ''priority:p2''])
   \<and> (sprint metadata = Some 9 \<or> sprint metadata = Some 10 \<longrightarrow>
      filter is_priority_token (get_labels story_id metadata) = [u ''priority:p3''])
   \<and> (sprint metadata = None \<longrightarrow>
      filter is_priority_token (get_labels story_id metadata) = [u ''priority:p3''])
   \<and> length (filter is_priority_token (get_labels story_id metadata)) = 1"
  by (auto simp: filter_priority priority_label_def sprint_upto_Some sprint_upto_None)

theorem priority_by_sprint_witness:
  "filter is_priority_token (get_labels (u ''US-001'') (entry 1 3 ''Core Package''))
     = [u ''priority:p0'']
   \<and> filter is_priority_token (get_labels (u ''US-013'') (entry 4 5 ''Core Package''))
     = [u ''priority:p1'']
   \<and> filter is_priority_token (get_labels (u ''US-023'') (entry 8 3 ''Extension Package''))
     = [u ''priority:p2'']
   \<and> filter is_priority_token (get_labels (u ''US-026'') (entry 9 30 ''Testing & Samples''))
     = [u ''priority:p3'']
   \<and> filter is_priority_token (get_labels (u ''US-099'') empty_metadata) = [u ''priority:p3'']"
  using priority_by_sprint [of "entry 1 3 ''Core Package''" "u ''US-001''"]
    priority_by_sprint [of "entry 4 5 ''Core Package''" "u ''US-013''"]
    priority_by_sprint [of "entry 8 3 ''Extension Package''" "u ''US-023''"]
    priority_by_sprint [of "entry 9 30 ''Testing & Samples''" "u ''US-026''"]
    priority_by_sprint [of empty_metadata "u ''US-099''"]
  by (simp add: entry_def empty_metadata_def)

text \<open>
  The label deriver on dictionaries of arbitrary values: the shape of a returned list,
  and agreement with the typed model on the dictionaries of the data model.
\<close>

lemma number_step_cases:
  "number_step pre v labels = Inr labels' \<Longrightarrow>
     \<exists>part. labels' = labels @ part \<and> (part = [] \<or> (\<exists>r. part = [u pre @ r]))"
  by (auto simp: number_step_def split: if_splits sum.splits)

lemma category_step_cases:
  "category_step v labels = Inr labels' \<Longrightarrow> \<exists>cat. labels' = labels @ category_labels cat"
  by (cases v) (auto simp: category_step_def category_labels_def)

lemma priority_step_cases:
  "priority_step v labels = Inr labels' \<Longrightarrow> \<exists>s. labels' = labels @ [priority_label s]"
proof (cases "truthy v")
  case False
  assume "priority_step v labels = Inr labels'"
  with False have "labels' = labels @ [priority_label None]"
    by (simp add: priority_step_def priority_label_def sprint_upto_def)
  then show ?thesis by blast
next
  case True
  assume r: "priority_step v labels = Inr labels'"
  with True obtain i where v: "v = PyInt i" "i \<noteq> 0"
    by (cases v) (auto simp: priority_step_def truthy_def)
  with r have "labels' = labels @ [priority_label (Some i)]"
    by (auto simp: priority_step_def truthy_def priority_label_def sprint_upto_def)
  then show ?thesis by blast
qed

lemma get_labels_dict_shape:
  assumes "get_labels_dict sid d = Inr labels"
  shows "\<exists>a b cat s. labels = u ''user-story'' # status_label sid # a @ b @ category_labels cat
            @ [priority_label s]
          \<and> (a = [] \<or> (\<exists>r. a = [u ''sp-'' @ r]))
          \<and> (b = [] \<or> (\<exists>r. b = [u ''sprint-'' @ r]))"
proof -
  let ?l1 = "[u ''user-story'', status_label sid]"
  have l1: "(if sid \<in> COMPLETED_STORIES then [u ''user-story''] @ [u ''status:complete'']
             else [u ''user-story''] @ [u ''status:not-started'']) = ?l1"
    by (simp add: status_label_def)
  from assms obtain l2 l3 l4 where
    s2: "number_step ''sp-'' (dict_get d (u ''sp'')) ?l1 = Inr l2" and
    s3: "number_step ''sprint-'' (dict_get d (u ''sprint'')) l2 = Inr l3" and
    s4: "category_step (dict_get_or_empty d (u ''category'')) l3 = Inr l4" and
    s5: "priority_step (dict_get d (u ''sprint'')) l4 = Inr labels"
    unfolding get_labels_dict_def Let_def l1 by (auto split: sum.splits)
  from number_step_cases [OF s2] obtain a where
    a: "l2 = ?l1 @ a" "a = [] \<or> (\<exists>r. a = [u ''sp-'' @ r])" by blast
  from number_step_cases [OF s3] obtain b where
    b: "l3 = l2 @ b" "b = [] \<or> (\<exists>r. b = [u ''sprint-'' @ r])" by blast
  from category_step_cases [OF s4] obtain cat where c: "l4 = l3 @ category_labels cat" by blast
  from priority_step_cases [OF s5] obtain s where p: "labels = l4 @ [priority_label s]" by blast
  have "labels = u ''user-story'' # status_label sid # a @ b @ category_labels cat
      @ [priority_label s]"
    using a(1) b(1) c p by simp
  then show ?thesis using a(2) b(2) by blast
qed

lemma distinct_shape:
  assumes a: "a = [] \<or> (\<exists>r. a = [u ''sp-'' @ r])"
    and b: "b = [] \<or> (\<exists>r. b = [u ''sprint-'' @ r])"
  shows "distinct (u ''user-story'' # status_label sid # a @ b @ category_labels cat
           @ [priority_label s])"
proof -
  have base: "take 3 (u ''user-story'') = u ''use''" by (simp add: u_def)
  have ta: "map (take 3) a = [] \<or> map (take 3) a = [u ''sp-'']"
    using a by (auto simp: u_def)
  have tb: "map (take 3) b = [] \<or> map (take 3) b = [u ''spr'']"
    using b by (auto simp: u_def)
  have "distinct (map (take 3) (u ''user-story'' # status_label sid # a @ b @ category_labels cat
           @ [priority_label s]))"
    using ta tb take3_category [of cat]
    by (auto simp: base take3_status take3_priority u_def)
  then show ?thesis by (simp only: distinct_map)
qed

lemma get_labels_dict_distinct:
  "get_labels_dict sid d = Inr labels \<Longrightarrow> distinct labels"
  using get_labels_dict_shape [of sid d labels] distinct_shape by blast

lemma number_step_typed:
  "int_field v \<Longrightarrow>
     number_step pre (case v of None \<Rightarrow> PyNone | Some x \<Rightarrow> x) labels
       = Inr (labels @ number_labels pre (as_int v))"
  by (auto simp: int_field_def number_step_def truthy_def format_value_def number_labels_def
      as_int_def simp del: digits.simps split: option.splits pyval.splits)

lemma category_step_typed:
  "str_field v \<Longrightarrow>
     category_step (case v of None \<Rightarrow> PyStr [] | Some x \<Rightarrow> x) labels
       = Inr (labels @ category_labels (case as_str v of None \<Rightarrow> [] | Some c \<Rightarrow> c))"
  by (auto simp: str_field_def category_step_def category_labels_def as_str_def
      split: option.splits pyval.splits)

lemma priority_step_typed:
  "int_field v \<Longrightarrow>
     priority_step (case v of None \<Rightarrow> PyNone | Some x \<Rightarrow> x) labels
       = Inr (labels @ [priority_label (as_int v)])"
  by (auto simp: int_field_def priority_step_def truthy_def priority_label_def sprint_upto_def
      as_int_def simp del: digits.simps split: option.splits pyval.splits)

lemma get_labels_dict_typed:
  assumes "typed_dict d"
  shows "get_labels_dict sid d = Inr (get_labels sid (as_metadata d))"
proof -
  have t: "int_field (d (u ''sp''))" "int_field (d (u ''sprint''))" "str_field (d (u ''category''))"
    using assms by (simp_all add: typed_dict_def)
  have l1: "(if sid \<in> COMPLETED_STORIES then [u ''user-story''] @ [u ''status:complete'']
             else [u ''user-story''] @ [u ''status:not-started''])
            = [u ''user-story'', status_label sid]"
    by (simp add: status_label_def)
  show ?thesis
    unfolding get_labels_dict_def Let_def l1 dict_get_def dict_get_or_empty_def
    by (simp add: number_step_typed [OF t(1)] number_step_typed [OF t(2)]
        category_step_typed [OF t(3)] priority_step_typed [OF t(2)] get_labels_parts
        as_metadata_def)
qed

text \<open>An integer of more than 4300 digits cannot be formatted.\<close>

lemma digits_length: "10 ^ k \<le> n \<Longrightarrow> k < length (digits n)"
proof (induction k arbitrary: n)
  case 0
  show ?case by (subst digits.simps) (simp del: digits.simps)
next
  case (Suc k)
  have "(1::nat) \<le> 10 ^ k" by simp
  then have "(10::nat) \<le> 10 ^ Suc k" by simp
  then have big: "\<not> n < 10" using Suc.prems by linarith
  have "10 * 10 ^ k \<le> n" using Suc.prems by simp
  then have "10 ^ k \<le> n div 10" by (simp add: less_eq_div_iff_mult_less_eq mult.commute)
  then have "k < length (digits (n div 10))" by (rule Suc.IH)
  then show ?case using big by (subst digits.simps) (simp del: digits.simps)
qed

lemma format_value_huge:
  assumes "max_str_digits \<le> k"
  shows "format_value (PyInt (10 ^ k)) = Inl ValueError"
proof -
  have eq: "nat \<bar>(10::int) ^ k\<bar> = 10 ^ k"
    by (simp add: nat_power_eq)
  have "k < length (digits (10 ^ k))"
    by (rule digits_length) (rule order_refl)
  then have "max_str_digits < length (digits (nat \<bar>(10::int) ^ k\<bar>))"
    unfolding eq using assms by linarith
  then show ?thesis
    by (simp add: format_value_def del: digits.simps)
qed

lemma truthy_power: "truthy (PyInt (10 ^ k))"
  by (simp add: truthy_def)

lemma number_step_error:
  "truthy v \<Longrightarrow> format_value v = Inl e \<Longrightarrow> number_step pre v labels = Inl e"
  by (simp add: number_step_def)

lemma sp_error:
  assumes "number_step ''sp-'' v [u ''user-story'', status_label sid] = Inl e"
  shows "get_labels_dict sid (map_of [(u ''sp'', v)]) = Inl e"
proof -
  have l1: "(if sid \<in> COMPLETED_STORIES then [u ''user-story''] @ [u ''status:complete'']
             else [u ''user-story''] @ [u ''status:not-started''])
            = [u ''user-story'', status_label sid]"
    by (simp add: status_label_def)
  have get: "dict_get (map_of [(u ''sp'', v)]) (u ''sp'') = v"
    by (simp add: dict_get_def)
  show ?thesis
    unfolding get_labels_dict_def Let_def l1 get assms by simp
qed

lemma huge_sp:
  "get_labels_dict (u ''US-001'') (map_of [(u ''sp'', PyInt (10 ^ 4300))]) = Inl ValueError"
proof -
  have "max_str_digits \<le> 4300" by (simp add: max_str_digits_def)
  then have "format_value (PyInt (10 ^ 4300)) = Inl ValueError"
    by (rule format_value_huge)
  with truthy_power have "number_step ''sp-'' (PyInt (10 ^ 4300))
      [u ''user-story'', status_label (u ''US-001'')] = Inl ValueError"
    by (rule number_step_error)
  then show ?thesis by (rule sp_error)
qed

text \<open>
  C5 (as amended): whenever \<open>get_labels\<close> returns, no label occurs twice in the list,
  for every identifier and every dictionary. It does return, with the list of the typed
  model, on every dictionary of the data model: \<open>sp\<close> and \<open>sprint\<close>, when present, are
  integers of at most 4300 decimal digits and \<open>category\<close>, when present, is a string. The
  result depends on nothing but the two arguments and the constant \<open>COMPLETED_STORIES\<close>.
\<close>

theorem labels_distinct_and_total_when_typed:
  "(get_labels_dict story_id metadata = Inr result \<longrightarrow> distinct result)
   \<and> (typed_dict metadata \<longrightarrow>
        (\<exists>labels. get_labels_dict story_id metadata = Inr labels
           \<and> labels = get_labels story_id (as_metadata metadata)
           \<and> distinct labels))"
  using get_labels_dict_distinct [of story_id metadata]
  by (simp add: get_labels_dict_typed)

theorem labels_distinct_and_total_when_typed_witness:
  "typed_dict (map_of [(u ''sprint'', PyInt 2), (u ''sp'', PyInt 8),
                       (u ''category'', PyStr (u ''Core Package''))])
   \<and> get_labels_dict (u ''US-006'')
        (map_of [(u ''sprint'', PyInt 2), (u ''sp'', PyInt 8),
                 (u ''category'', PyStr (u ''Core Package''))])
       = Inr (get_labels (u ''US-006'')
                \<lparr>sprint = Some 2, sp = Some 8, category = Some (u ''Core Package'')\<rparr>)
   \<and> distinct (get_labels (u ''US-006'')
                \<lparr>sprint = Some 2, sp = Some 8, category = Some (u ''Core Package'')\<rparr>)"
proof -
  let ?d = "map_of [(u ''sprint'', PyInt 2), (u ''sp'', PyInt 8),
                    (u ''category'', PyStr (u ''Core Package''))]"
  have keys: "u ''sp'' \<noteq> u ''sprint''" "u ''category'' \<noteq> u ''sprint''"
    "u ''category'' \<noteq> u ''sp''"
    by (simp_all add: u_def)
  have look: "?d (u ''sprint'') = Some (PyInt 2)" "?d (u ''sp'') = Some (PyInt 8)"
    "?d (u ''category'') = Some (PyStr (u ''Core Package''))"
    using keys by simp_all
  have small: "length (digits (nat \<bar>2\<bar>)) \<le> max_str_digits"
    "length (digits (nat \<bar>8\<bar>)) \<le> max_str_digits"
    by (simp_all add: max_str_digits_def)
  have h: "typed_dict ?d"
    unfolding typed_dict_def look int_field_def str_field_def using small by simp
  have md: "as_metadata ?d
      = \<lparr>sprint = Some 2, sp = Some 8, category = Some (u ''Core Package'')\<rparr>"
    unfolding as_metadata_def look by (simp add: as_int_def as_str_def)
  from labels_distinct_and_total_when_typed [of "u ''US-006''" ?d, THEN conjunct2, THEN mp, OF h]
  have "get_labels_dict (u ''US-006'') ?d = Inr (get_labels (u ''US-006'') (as_metadata ?d))
      \<and> distinct (get_labels (u ''US-006'') (as_metadata ?d))"
    by (elim exE conjE) simp
  then show ?thesis unfolding md using h by (intro conjI) simp_all
qed

theorem labels_distinct_and_total_when_typed_counterexample:
  "get_labels_dict (u ''US-001'') (map_of [(u ''category'', PyNone)]) = Inl TypeError
   \<and> get_labels_dict (u ''US-001'') (map_of [(u ''sprint'', PyStr (u ''2''))]) = Inl TypeError
   \<and> get_labels_dict (u ''US-001'') (map_of [(u ''sp'', PyInt (10 ^ 4300))]) = Inl ValueError"
proof -
  have keys: "u ''sp'' \<noteq> u ''category''" "u ''sprint'' \<noteq> u ''category''"
    "u ''sp'' \<noteq> u ''sprint''" "u ''category'' \<noteq> u ''sprint''"
    by (simp_all add: u_def)
  have two: "u ''2'' \<noteq> []" by (simp add: u_def)
  have none: "get_labels_dict (u ''US-001'') (map_of [(u ''category'', PyNone)]) = Inl TypeError"
    using keys
    by (simp add: get_labels_dict_def Let_def dict_get_def dict_get_or_empty_def number_step_def
        truthy_def category_step_def)
  have str_sprint: "get_labels_dict (u ''US-001'') (map_of [(u ''sprint'', PyStr (u ''2''))])
      = Inl TypeError"
    using keys two
    by (simp add: get_labels_dict_def Let_def dict_get_def dict_get_or_empty_def number_step_def
        truthy_def format_value_def category_step_def priority_step_def)
  show ?thesis
    by (intro conjI) (rule none, rule str_sprint, rule huge_sp)
qed

text \<open>
  C10: for every identifier and every metadata dictionary the result starts with
  \<open>user-story\<close>, holds exactly one status token and exactly one priority token, and has
  between three and six labels; the empty dictionary gives three.
\<close>

theorem labels_shape:
  "take 1 (get_labels story_id metadata) = [u ''user-story'']
   \<and> length (filter is_status_token (get_labels story_id metadata)) = 1
   \<and> length (filter is_priority_token (get_labels story_id metadata)) = 1
   \<and> 3 \<le> length (get_labels story_id metadata)
   \<and> length (get_labels story_id metadata) \<le> 6
   \<and> length (get_labels story_id empty_metadata) = 3"
proof -
  have "length (get_labels story_id empty_metadata) = 3"
    by (simp add: get_labels_parts empty_metadata_def number_labels_def category_labels_def u_def)
  moreover have "take 1 (get_labels story_id metadata) = [u ''user-story'']"
    by (simp add: get_labels_parts)
  ultimately show ?thesis
    using length_labels [of story_id metadata]
    by (simp add: filter_status filter_priority)
qed

text \<open>
  C1 (as amended): for \<open>US-004\<close> with the metadata sprint 2, sp 8, category
  \<open>Core Package\<close>, the labels are \<open>user-story\<close>, \<open>status:complete\<close>, \<open>sp-8\<close>, \<open>sprint-2\<close>,
  \<open>core-package\<close>, \<open>priority:p0\<close>, because \<open>US-004\<close> is in \<open>COMPLETED_STORIES\<close>; with the
  same metadata, an identifier outside \<open>COMPLETED_STORIES\<close> gets the same labels with
  \<open>status:not-started\<close> in second place.
\<close>

theorem example_labels:
  "get_labels (u ''US-004'') \<lparr>sprint = Some 2, sp = Some 8, category = Some (u ''Core Package'')\<rparr>
     = [u ''user-story'', u ''status:complete'', u ''sp-8'', u ''sprint-2'', u ''core-package'',
        u ''priority:p0'']
   \<and> (story_id \<notin> COMPLETED_STORIES \<longrightarrow>
        get_labels story_id \<lparr>sprint = Some 2, sp = Some 8, category = Some (u ''Core Package'')\<rparr>
          = [u ''user-story'', u ''status:not-started'', u ''sp-8'', u ''sprint-2'',
             u ''core-package'', u ''priority:p0''])"
proof -
  have c: "category_labels (u ''Core Package'') = [u ''core-package'']"
    by (simp add: category_labels_def u_def)
  have n: "number_labels ''sp-'' (Some 8) = [u ''sp-8'']"
    "number_labels ''sprint-'' (Some 2) = [u ''sprint-2'']"
    by (simp_all add: number_labels_def str_int_def u_def)
  have p: "priority_label (Some 2) = u ''priority:p0''"
    by (simp add: priority_label_def sprint_upto_def)
  have s: "status_label (u ''US-004'') = u ''status:complete''"
    by (simp add: status_label_def COMPLETED_STORIES_def)
  show ?thesis
    by (simp add: get_labels_parts c n p s) (simp add: status_label_def)
qed

theorem example_labels_witness:
  "u ''US-006'' \<notin> COMPLETED_STORIES
   \<and> get_labels (u ''US-006'') \<lparr>sprint = Some 2, sp = Some 8, category = Some (u ''Core Package'')\<rparr>
       = [u ''user-story'', u ''status:not-started'', u ''sp-8'', u ''sprint-2'',
          u ''core-package'', u ''priority:p0'']"
proof -
  have h: "u ''US-006'' \<notin> COMPLETED_STORIES"
    by (simp add: COMPLETED_STORIES_def u_def)
  show ?thesis using h example_labels [of "u ''US-006''"] by simp
qed

theorem example_labels_counterexample:
  "get_labels (u ''US-004'') \<lparr>sprint = Some 2, sp = Some 8, category = Some (u ''Core Package'')\<rparr>
     \<noteq> [u ''user-story'', u ''status:not-started'', u ''sp-8'', u ''sprint-2'',
         u ''core-package'', u ''priority:p0'']"
proof -
  have "status_label (u ''US-004'') = u ''status:complete''"
    by (simp add: status_label_def COMPLETED_STORIES_def)
  moreover have "u ''status:complete'' \<noteq> u ''status:not-started''"
    by (simp add: u_def)
  ultimately show ?thesis by (simp add: get_labels_parts)
qed

text \<open>
  C4 (as amended): the category token is chosen by the first rule that matches, in the
  order \<open>Core Package\<close>, \<open>Extension Package\<close>, \<open>Testing\<close> or \<open>Samples\<close>, \<open>Documentation\<close>,
  and there is none when no rule matches. A category that contains both \<open>Testing\<close> and
  \<open>Documentation\<close> never yields the documentation token, and it yields the testing
  token when it contains neither \<open>Core Package\<close> nor \<open>Extension Package\<close>.
\<close>

theorem category_routing:
  "cat = (case category metadata of None \<Rightarrow> [] | Some c \<Rightarrow> c) \<longrightarrow>
     filter is_category_token (get_labels story_id metadata) =
       (if contains (u ''Core Package'') cat then [u ''core-package'']
        else if contains (u ''Extension Package'') cat then [u ''extension-package'']
        else if contains (u ''Testing'') cat \<or> contains (u ''Samples'') cat then [u ''testing'']
        else if contains (u ''Documentation'') cat then [u ''documentation'']
        else [])
     \<and> (contains (u ''Testing'') cat \<and> contains (u ''Documentation'') cat \<longrightarrow>
          u ''documentation'' \<notin> set (get_labels story_id metadata)
          \<and> (\<not> contains (u ''Core Package'') cat \<and> \<not> contains (u ''Extension Package'') cat
               \<longrightarrow> filter is_category_token (get_labels story_id metadata) = [u ''testing'']))"
proof (intro impI conjI)
  assume cat: "cat = (case category metadata of None \<Rightarrow> [] | Some c \<Rightarrow> c)"
  show chain: "filter is_category_token (get_labels story_id metadata) =
       (if contains (u ''Core Package'') cat then [u ''core-package'']
        else if contains (u ''Extension Package'') cat then [u ''extension-package'']
        else if contains (u ''Testing'') cat \<or> contains (u ''Samples'') cat then [u ''testing'']
        else if contains (u ''Documentation'') cat then [u ''documentation'']
        else [])"
    by (simp only: filter_category category_labels_def cat)
  {
    assume both: "contains (u ''Testing'') cat \<and> contains (u ''Documentation'') cat"
    have lits: "u ''documentation'' \<noteq> u ''core-package''"
      "u ''documentation'' \<noteq> u ''extension-package''" "u ''documentation'' \<noteq> u ''testing''"
      by (simp_all add: u_def)
    have "u ''documentation'' \<notin> set (filter is_category_token (get_labels story_id metadata))"
      using both lits by (simp add: chain)
    then show "u ''documentation'' \<notin> set (get_labels story_id metadata)"
      by (simp add: is_category_token_def)
    assume "\<not> contains (u ''Core Package'') cat \<and> \<not> contains (u ''Extension Package'') cat"
    with both show "filter is_category_token (get_labels story_id metadata) = [u ''testing'']"
      by (simp add: chain)
  }
qed

theorem category_routing_witness:
  "contains (u ''Testing'') (u ''Testing & Documentation'')
   \<and> contains (u ''Documentation'') (u ''Testing & Documentation'')
   \<and> u ''documentation'' \<notin> set (get_labels (u ''US-029'')
        \<lparr>sprint = Some 10, sp = Some 8, category = Some (u ''Testing & Documentation'')\<rparr>)
   \<and> filter is_category_token (get_labels (u ''US-029'')
        \<lparr>sprint = Some 10, sp = Some 8, category = Some (u ''Testing & Documentation'')\<rparr>)
       = [u ''testing'']"
proof -
  have h: "contains (u ''Testing'') (u ''Testing & Documentation'')"
    "contains (u ''Documentation'') (u ''Testing & Documentation'')"
    "\<not> contains (u ''Core Package'') (u ''Testing & Documentation'')"
    "\<not> contains (u ''Extension Package'') (u ''Testing & Documentation'')"
    by (simp_all add: u_def)
  show ?thesis
    using h category_routing [of "u ''Testing & Documentation''"
        "\<lparr>sprint = Some 10, sp = Some 8, category = Some (u ''Testing & Documentation'')\<rparr>"
        "u ''US-029''"]
    by simp
qed

theorem category_routing_counterexample:
  "contains (u ''Testing'') (u ''Core Package Testing & Documentation'')
   \<and> contains (u ''Documentation'') (u ''Core Package Testing & Documentation'')
   \<and> u ''testing'' \<notin> set (get_labels (u ''US-001'')
        \<lparr>sprint = Some 1, sp = Some 3,
         category = Some (u ''Core Package Testing & Documentation'')\<rparr>)
   \<and> filter is_category_token (get_labels (u ''US-001'')
        \<lparr>sprint = Some 1, sp = Some 3,
         category = Some (u ''Core Package Testing & Documentation'')\<rparr>)
       = [u ''core-package'']"
proof -
  let ?c = "u ''Core Package Testing & Documentation''"
  let ?md = "\<lparr>sprint = Some 1, sp = Some 3, category = Some ?c\<rparr>"
  have h: "contains (u ''Testing'') ?c" "contains (u ''Documentation'') ?c"
    "contains (u ''Core Package'') ?c"
    by (simp_all add: u_def)
  have f: "filter is_category_token (get_labels (u ''US-001'') ?md) = [u ''core-package'']"
    using h by (simp add: filter_category category_labels_def)
  have "u ''testing'' \<noteq> u ''core-package''" by (simp add: u_def)
  then have "u ''testing'' \<notin> set (filter is_category_token (get_labels (u ''US-001'') ?md))"
    by (simp add: f)
  then have "u ''testing'' \<notin> set (get_labels (u ''US-001'') ?md)"
    by (simp add: is_category_token_def)
  with h f show ?thesis by simp
qed

section \<open>Properties of the issue body\<close>

lemma append_section_eq:
  "append_section sections key heading body_parts =
     body_parts @ blocks_of sections (key, heading)"
  by (simp add: append_section_def blocks_of_def section_block_def split: option.splits)

lemma body_is_joined_blocks:
  "generate_issue_body sections = join (u ''\<newline>\<newline>'') (present_blocks sections)"
  by (simp add: generate_issue_body_def Let_def append_section_eq present_blocks_def
      canonical_sections_def)

lemma blocks_of_present:
  "sections (u key) = Some v \<Longrightarrow> v \<noteq> [] \<Longrightarrow>
     blocks_of sections (key, heading) = [section_block heading v]"
  by (simp add: blocks_of_def)

lemma blocks_of_absent:
  "sections (u key) = None \<or> sections (u key) = Some [] \<Longrightarrow>
     blocks_of sections (key, heading) = []"
  by (auto simp: blocks_of_def)

lemma u_append: "u (a @ b) = u a @ u b"
  by (simp add: u_def)

lemma heading_text:
  "section_block ''Description'' v = u ''## Description\<newline>\<newline>'' @ v"
  "section_block ''Acceptance Criteria'' v = u ''## Acceptance Criteria\<newline>\<newline>'' @ v"
  "section_block ''Technical Requirements'' v = u ''## Technical Requirements\<newline>\<newline>'' @ v"
  "section_block ''Testing Requirements'' v = u ''## Testing Requirements\<newline>\<newline>'' @ v"
  "section_block ''Performance Requirements'' v
     = u ''## Performance Requirements\<newline>\<newline>'' @ v"
  "section_block ''Dependencies'' v = u ''## Dependencies\<newline>\<newline>'' @ v"
  "section_block ''Definition of Done'' v = u ''## Definition of Done\<newline>\<newline>'' @ v"
  "section_block ''Notes'' v = u ''## Notes\<newline>\<newline>'' @ v"
  "section_block ''Related Documentation'' v = u ''## Related Documentation\<newline>\<newline>'' @ v"
  by (simp_all add: section_block_def u_def)

text \<open>
  C7: the issue body is the blocks of the present sections, in the canonical order,
  joined by an empty line; a block is \<open>## Heading\<close>, an empty line and the section's text,
  and a section that is missing or empty has no block and brings no separator. When all
  nine sections are present there are nine blocks, and the body is the nine headings in
  canonical order, each followed by its text, with one empty line between blocks.
\<close>

theorem issue_body_assembly:
  "generate_issue_body sections = join (u ''\<newline>\<newline>'') (present_blocks sections)
   \<and> (sections (u ''description'') = Some d \<and> d \<noteq> []
      \<and> sections (u ''acceptance_criteria'') = Some a \<and> a \<noteq> []
      \<and> sections (u ''technical_requirements'') = Some t \<and> t \<noteq> []
      \<and> sections (u ''testing_requirements'') = Some e \<and> e \<noteq> []
      \<and> sections (u ''performance_requirements'') = Some p \<and> p \<noteq> []
      \<and> sections (u ''dependencies'') = Some q \<and> q \<noteq> []
      \<and> sections (u ''definition_of_done'') = Some f \<and> f \<noteq> []
      \<and> sections (u ''notes'') = Some n \<and> n \<noteq> []
      \<and> sections (u ''related_docs'') = Some r \<and> r \<noteq> []
      \<longrightarrow>
        length (present_blocks sections) = 9
        \<and> generate_issue_body sections =
            u ''## Description\<newline>\<newline>'' @ d
            @ u ''\<newline>\<newline>## Acceptance Criteria\<newline>\<newline>'' @ a
            @ u ''\<newline>\<newline>## Technical Requirements\<newline>\<newline>'' @ t
            @ u ''\<newline>\<newline>## Testing Requirements\<newline>\<newline>'' @ e
            @ u ''\<newline>\<newline>## Performance Requirements\<newline>\<newline>'' @ p
            @ u ''\<newline>\<newline>## Dependencies\<newline>\<newline>'' @ q
            @ u ''\<newline>\<newline>## Definition of Done\<newline>\<newline>'' @ f
            @ u ''\<newline>\<newline>## Notes\<newline>\<newline>'' @ n
            @ u ''\<newline>\<newline>## Related Documentation\<newline>\<newline>'' @ r)"
proof (intro conjI impI)
  show "generate_issue_body sections = join (u ''\<newline>\<newline>'') (present_blocks sections)"
    by (rule body_is_joined_blocks)
next
  assume h: "sections (u ''description'') = Some d \<and> d \<noteq> []
      \<and> sections (u ''acceptance_criteria'') = Some a \<and> a \<noteq> []
      \<and> sections (u ''technical_requirements'') = Some t \<and> t \<noteq> []
      \<and> sections (u ''testing_requirements'') = Some e \<and> e \<noteq> []
      \<and> sections (u ''performance_requirements'') = Some p \<and> p \<noteq> []
      \<and> sections (u ''dependencies'') = Some q \<and> q \<noteq> []
      \<and> sections (u ''definition_of_done'') = Some f \<and> f \<noteq> []
      \<and> sections (u ''notes'') = Some n \<and> n \<noteq> []
      \<and> sections (u ''related_docs'') = Some r \<and> r \<noteq> []"
  have blocks: "present_blocks sections =
      [section_block ''Description'' d, section_block ''Acceptance Criteria'' a,
       section_block ''Technical Requirements'' t, section_block ''Testing Requirements'' e,
       section_block ''Performance Requirements'' p, section_block ''Dependencies'' q,
       section_block ''Definition of Done'' f, section_block ''Notes'' n,
       section_block ''Related Documentation'' r]"
    using h by (simp add: present_blocks_def canonical_sections_def blocks_of_present)
  show "length (present_blocks sections) = 9"
    by (simp add: blocks)
  have sep: "u ''\<newline>\<newline>## Acceptance Criteria\<newline>\<newline>''
        = u ''\<newline>\<newline>'' @ u ''## Acceptance Criteria\<newline>\<newline>''"
      "u ''\<newline>\<newline>## Technical Requirements\<newline>\<newline>''
        = u ''\<newline>\<newline>'' @ u ''## Technical Requirements\<newline>\<newline>''"
      "u ''\<newline>\<newline>## Testing Requirements\<newline>\<newline>''
        = u ''\<newline>\<newline>'' @ u ''## Testing Requirements\<newline>\<newline>''"
      "u ''\<newline>\<newline>## Performance Requirements\<newline>\<newline>''
        = u ''\<newline>\<newline>'' @ u ''## Performance Requirements\<newline>\<newline>''"
      "u ''\<newline>\<newline>## Dependencies\<newline>\<newline>''
        = u ''\<newline>\<newline>'' @ u ''## Dependencies\<newline>\<newline>''"
      "u ''\<newline>\<newline>## Definition of Done\<newline>\<newline>''
        = u ''\<newline>\<newline>'' @ u ''## Definition of Done\<newline>\<newline>''"
      "u ''\<newline>\<newline>## Notes\<newline>\<newline>''
        = u ''\<newline>\<newline>'' @ u ''## Notes\<newline>\<newline>''"
      "u ''\<newline>\<newline>## Related Documentation\<newline>\<newline>''
        = u ''\<newline>\<newline>'' @ u ''## Related Documentation\<newline>\<newline>''"
    by (simp_all add: u_def)
  show "generate_issue_body sections =
            u ''## Description\<newline>\<newline>'' @ d
            @ u ''\<newline>\<newline>## Acceptance Criteria\<newline>\<newline>'' @ a
            @ u ''\<newline>\<newline>## Technical Requirements\<newline>\<newline>'' @ t
            @ u ''\<newline>\<newline>## Testing Requirements\<newline>\<newline>'' @ e
            @ u ''\<newline>\<newline>## Performance Requirements\<newline>\<newline>'' @ p
            @ u ''\<newline>\<newline>## Dependencies\<newline>\<newline>'' @ q
            @ u ''\<newline>\<newline>## Definition of Done\<newline>\<newline>'' @ f
            @ u ''\<newline>\<newline>## Notes\<newline>\<newline>'' @ n
            @ u ''\<newline>\<newline>## Related Documentation\<newline>\<newline>'' @ r"
    by (simp add: body_is_joined_blocks blocks heading_text sep)
qed

theorem issue_body_assembly_witness:
  "generate_issue_body
     (map_of
       [(u ''description'', u ''D''), (u ''acceptance_criteria'', u ''A''),
        (u ''technical_requirements'', u ''T''), (u ''testing_requirements'', u ''E''),
        (u ''performance_requirements'', u ''P''), (u ''dependencies'', u ''Q''),
        (u ''definition_of_done'', u ''F''), (u ''notes'', u ''N''),
        (u ''related_docs'', u ''R'')])
   = u ''## Description\<newline>\<newline>'' @ u ''D''
     @ u ''\<newline>\<newline>## Acceptance Criteria\<newline>\<newline>'' @ u ''A''
     @ u ''\<newline>\<newline>## Technical Requirements\<newline>\<newline>'' @ u ''T''
     @ u ''\<newline>\<newline>## Testing Requirements\<newline>\<newline>'' @ u ''E''
     @ u ''\<newline>\<newline>## Performance Requirements\<newline>\<newline>'' @ u ''P''
     @ u ''\<newline>\<newline>## Dependencies\<newline>\<newline>'' @ u ''Q''
     @ u ''\<newline>\<newline>## Definition of Done\<newline>\<newline>'' @ u ''F''
     @ u ''\<newline>\<newline>## Notes\<newline>\<newline>'' @ u ''N''
     @ u ''\<newline>\<newline>## Related Documentation\<newline>\<newline>'' @ u ''R''"
proof -
  let ?m = "map_of
       [(u ''description'', u ''D''), (u ''acceptance_criteria'', u ''A''),
        (u ''technical_requirements'', u ''T''), (u ''testing_requirements'', u ''E''),
        (u ''performance_requirements'', u ''P''), (u ''dependencies'', u ''Q''),
        (u ''definition_of_done'', u ''F''), (u ''notes'', u ''N''),
        (u ''related_docs'', u ''R'')]"
  have h: "?m (u ''description'') = Some (u ''D'') \<and> u ''D'' \<noteq> []
      \<and> ?m (u ''acceptance_criteria'') = Some (u ''A'') \<and> u ''A'' \<noteq> []
      \<and> ?m (u ''technical_requirements'') = Some (u ''T'') \<and> u ''T'' \<noteq> []
      \<and> ?m (u ''testing_requirements'') = Some (u ''E'') \<and> u ''E'' \<noteq> []
      \<and> ?m (u ''performance_requirements'') = Some (u ''P'') \<and> u ''P'' \<noteq> []
      \<and> ?m (u ''dependencies'') = Some (u ''Q'') \<and> u ''Q'' \<noteq> []
      \<and> ?m (u ''definition_of_done'') = Some (u ''F'') \<and> u ''F'' \<noteq> []
      \<and> ?m (u ''notes'') = Some (u ''N'') \<and> u ''N'' \<noteq> []
      \<and> ?m (u ''related_docs'') = Some (u ''R'') \<and> u ''R'' \<noteq> []"
    by (simp add: u_def)
  show ?thesis
    using h issue_body_assembly [of ?m "u ''D''" "u ''A''" "u ''T''" "u ''E''" "u ''P''" "u ''Q''"
        "u ''F''" "u ''N''" "u ''R''"]
    by blast
qed

section \<open>Properties of the story parser\<close>






lemma extract_section_other:
  "k \<noteq> fst p \<Longrightarrow> extract_section content p m k = m k"
  by (simp add: extract_section_def split: option.splits)

lemma fold_extract_other:
  "k \<notin> fst ` set ps \<Longrightarrow> fold (extract_section content) ps m k = m k"
  by (induction ps arbitrary: m) (auto simp: extract_section_other)


lemma section_keys:
  "map fst section_patterns =
     [u ''description'', u ''acceptance_criteria'', u ''technical_requirements'',
      u ''testing_requirements'', u ''performance_requirements'', u ''dependencies'',
      u ''definition_of_done'', u ''notes'', u ''related_docs'']"
  by (simp add: section_patterns_def)


lemma scalar_keys_apart:
  "u ''story_id'' \<notin> fst ` set section_patterns"
  "u ''title'' \<notin> fst ` set section_patterns"
  "u ''status'' \<notin> fst ` set section_patterns"
  "u ''category'' \<notin> fst ` set section_patterns"
  "u ''effort'' \<notin> fst ` set section_patterns"
  "u ''sprint'' \<notin> fst ` set section_patterns"
  unfolding set_map [symmetric] section_keys by (simp_all add: u_def)

lemma scalar_keys_differ:
  "u ''story_id'' \<noteq> u ''title''" "u ''story_id'' \<noteq> u ''status''"
  "u ''story_id'' \<noteq> u ''category''" "u ''story_id'' \<noteq> u ''effort''"
  "u ''story_id'' \<noteq> u ''sprint''" "u ''title'' \<noteq> u ''status''"
  "u ''title'' \<noteq> u ''category''" "u ''title'' \<noteq> u ''effort''" "u ''title'' \<noteq> u ''sprint''"
  "u ''status'' \<noteq> u ''category''" "u ''status'' \<noteq> u ''effort''" "u ''status'' \<noteq> u ''sprint''"
  "u ''category'' \<noteq> u ''effort''" "u ''category'' \<noteq> u ''sprint''" "u ''effort'' \<noteq> u ''sprint''"
  by (simp_all add: u_def)


lemma parse_content_story_id:
  "parse_content stem content (u ''story_id'')
     = Some (join (u ''-'') (take 2 (split_on 0x2D stem)))"
  using scalar_keys_differ
  by (simp add: parse_content_def Let_def fold_extract_other scalar_keys_apart)

lemma parse_content_title:
  "parse_content stem content (u ''title'')
     = Some (group_or (search_title content) (u ''Unknown Title''))"
  using scalar_keys_differ
  by (simp add: parse_content_def Let_def fold_extract_other scalar_keys_apart)








text \<open>The title search.\<close>

lemma first_match_None: "first_match f xs = None \<longleftrightarrow> (\<forall>x \<in> set xs. f x = None)"
  by (induction xs) (auto split: option.splits)

lemma first_match_first:
  "(\<forall>y \<in> set before. f y = None) \<Longrightarrow> f x = Some t \<Longrightarrow>
     first_match f (before @ x # after) = Some t"
  by (induction before) auto

lemma ascii_digit_decimal: "48 \<le> c \<Longrightarrow> c \<le> 57 \<Longrightarrow> py_isdecimal c"
  by (simp add: py_isdecimal_def decimal_blocks_def)

lemma colon_not_decimal: "\<not> py_isdecimal 58"
  by (simp add: py_isdecimal_def decimal_blocks_def)

lemma title_prefix: "u ''# US-'' = [35, 32, 85, 83, 45]" and colon_space: "u '': '' = [58, 32]"
  by (simp_all add: u_def)

lemma match_title_line_iff:
  "match_title_line l = Some t \<longleftrightarrow>
     (\<exists>ds. ds \<noteq> [] \<and> (\<forall>d \<in> set ds. py_isdecimal d) \<and> t \<noteq> []
        \<and> l = u ''# US-'' @ ds @ u '': '' @ t)"
proof
  assume m: "match_title_line l = Some t"
  let ?r = "drop 5 l"
  let ?ds = "takeWhile py_isdecimal ?r"
  let ?r' = "dropWhile py_isdecimal ?r"
  from m have sw: "starts_with (u ''# US-'') l"
    by (simp add: match_title_line_def split: if_splits)
  with m have rest: "?ds \<noteq> []" "starts_with (u '': '') ?r'" "drop 2 ?r' \<noteq> []" "t = drop 2 ?r'"
    by (auto simp: match_title_line_def Let_def split: if_splits)
  from sw obtain r where l: "l = u ''# US-'' @ r" by (auto simp: starts_with_iff)
  have len: "length (u ''# US-'') = 5" by (simp add: u_def)
  have r: "?r = r" by (subst l) (simp add: len)
  from rest(2) obtain t' where r': "?r' = u '': '' @ t'" by (auto simp: starts_with_iff)
  have "drop 2 ?r' = t'" by (subst r') (simp add: colon_space)
  then have tt: "t = t'" using rest(4) by simp
  have r'2: "dropWhile py_isdecimal r = u '': '' @ t" using r r' tt by simp
  have "r = takeWhile py_isdecimal r @ u '': '' @ t"
    by (metis r'2 takeWhile_dropWhile_id)
  then have "r = ?ds @ u '': '' @ t" using r by simp
  then have "l = u ''# US-'' @ ?ds @ u '': '' @ t" using l by simp
  moreover have "\<forall>d \<in> set ?ds. py_isdecimal d" by (auto dest: set_takeWhileD)
  moreover have "t \<noteq> []" using rest(3,4) by simp
  ultimately show "\<exists>ds. ds \<noteq> [] \<and> (\<forall>d \<in> set ds. py_isdecimal d) \<and> t \<noteq> []
        \<and> l = u ''# US-'' @ ds @ u '': '' @ t"
    using rest(1) by blast
next
  assume "\<exists>ds. ds \<noteq> [] \<and> (\<forall>d \<in> set ds. py_isdecimal d) \<and> t \<noteq> []
        \<and> l = u ''# US-'' @ ds @ u '': '' @ t"
  then obtain ds where ds: "ds \<noteq> []" "\<forall>d \<in> set ds. py_isdecimal d" and t: "t \<noteq> []"
    and l: "l = u ''# US-'' @ ds @ u '': '' @ t" by blast
  have sw: "starts_with (u ''# US-'') l" using l by (auto simp: starts_with_iff)
  have r: "drop 5 l = ds @ 58 # 32 # t" using l by (simp add: title_prefix colon_space)
  have tw: "takeWhile py_isdecimal (ds @ 58 # 32 # t) = ds"
    using ds(2) colon_not_decimal by (simp add: takeWhile_append2)
  have dw: "dropWhile py_isdecimal (ds @ 58 # 32 # t) = 58 # 32 # t"
    using ds(2) colon_not_decimal by (simp add: dropWhile_append2)
  show "match_title_line l = Some t"
    using sw ds(1) t by (simp add: match_title_line_def Let_def r tw dw colon_space)
qed

text \<open>The pieces of \<open>split_on\<close> are the text between the separators.\<close>

lemma split_on_join: "join [sep] (split_on sep s) = s"
proof (induction s)
  case Nil
  then show ?case by simp
next
  case (Cons c cs)
  then show ?case
    by (cases "split_on sep cs"; cases "tl (split_on sep cs)") (auto split: list.splits)
qed

lemma split_on_no_sep: "l \<in> set (split_on sep s) \<Longrightarrow> sep \<notin> set l"
  by (induction s arbitrary: l) (auto split: if_splits list.splits)

text \<open>
  C8 (as amended): a title line is a line of the form \<open># US-\<close>, one or more decimal
  digits, a colon and a space, and a non-empty text; the identifier in it need not be the
  story's own. The title of a readable file is the text of the first title line among the
  lines of the document, whatever follows that line, and it is \<open>Unknown Title\<close> when no
  line is a title line.
\<close>

theorem title_is_first_title_line:
  "(match_title_line line = Some text \<longleftrightarrow>
      (\<exists>ds. ds \<noteq> [] \<and> (\<forall>d \<in> set ds. py_isdecimal d) \<and> text \<noteq> []
         \<and> line = u ''# US-'' @ ds @ u '': '' @ text))
   \<and> (text_of filepath = Some content \<longrightarrow>
        (\<exists>sections. parse_markdown_file filepath = Inr sections
           \<and> ((\<forall>l \<in> set (split_on 0x0A content). match_title_line l = None) \<longrightarrow>
                 sections (u ''title'') = Some (u ''Unknown Title''))
           \<and> (\<forall>before l t after.
                 split_on 0x0A content = before @ l # after
                 \<and> (\<forall>l' \<in> set before. match_title_line l' = None)
                 \<and> match_title_line l = Some t
                 \<longrightarrow> sections (u ''title'') = Some t)))"
proof (intro conjI impI)
  show "match_title_line line = Some text \<longleftrightarrow>
      (\<exists>ds. ds \<noteq> [] \<and> (\<forall>d \<in> set ds. py_isdecimal d) \<and> text \<noteq> []
         \<and> line = u ''# US-'' @ ds @ u '': '' @ text)"
    by (rule match_title_line_iff)
next
  assume readable: "text_of filepath = Some content"
  let ?s = "parse_content (path_stem (filename filepath)) content"
  have p: "parse_markdown_file filepath = Inr ?s"
    by (simp add: parse_markdown_file_def readable)
  have none: "(\<forall>l \<in> set (split_on 0x0A content). match_title_line l = None) \<longrightarrow>
      ?s (u ''title'') = Some (u ''Unknown Title'')"
    by (simp add: parse_content_title search_title_def first_match_None [symmetric] group_or_def)
  have first: "\<forall>before l t after.
      split_on 0x0A content = before @ l # after
      \<and> (\<forall>l' \<in> set before. match_title_line l' = None)
      \<and> match_title_line l = Some t
      \<longrightarrow> ?s (u ''title'') = Some t"
    by (auto simp: parse_content_title search_title_def first_match_first group_or_def)
  show "\<exists>sections. parse_markdown_file filepath = Inr sections
           \<and> ((\<forall>l \<in> set (split_on 0x0A content). match_title_line l = None) \<longrightarrow>
                 sections (u ''title'') = Some (u ''Unknown Title''))
           \<and> (\<forall>before l t after.
                 split_on 0x0A content = before @ l # after
                 \<and> (\<forall>l' \<in> set before. match_title_line l' = None)
                 \<and> match_title_line l = Some t
                 \<longrightarrow> sections (u ''title'') = Some t)"
    using p none first by blast
qed

lemma title_line_example:
  "match_title_line (u ''# US-002: Other'') = Some (u ''Other'')"
  "match_title_line (u ''intro'') = None"
proof -
  have "u ''# US-002: Other'' = u ''# US-'' @ u ''002'' @ u '': '' @ u ''Other''"
    by (simp add: u_def)
  moreover have "\<forall>d \<in> set (u ''002''). py_isdecimal d"
    by (simp add: u_def ascii_digit_decimal)
  moreover have "u ''002'' \<noteq> []" "u ''Other'' \<noteq> []" by (simp_all add: u_def)
  ultimately show "match_title_line (u ''# US-002: Other'') = Some (u ''Other'')"
    unfolding match_title_line_iff by blast
  show "match_title_line (u ''intro'') = None"
    by (simp add: match_title_line_def u_def)
qed

lemma split_example:
  "split_on 0x0A (u ''intro\<newline># US-002: Other\<newline># US-001: Mine'')
     = [u ''intro''] @ u ''# US-002: Other'' # [u ''# US-001: Mine'']"
  by (simp add: u_def)

theorem title_is_first_title_line_witness:
  "text_of \<lparr>filename = u ''US-001-setup.md'',
            text_of = Some (u ''intro\<newline># US-002: Other\<newline># US-001: Mine'')\<rparr>
     = Some (u ''intro\<newline># US-002: Other\<newline># US-001: Mine'')
   \<and> (\<exists>sections.
        parse_markdown_file
          \<lparr>filename = u ''US-001-setup.md'',
           text_of = Some (u ''intro\<newline># US-002: Other\<newline># US-001: Mine'')\<rparr>
          = Inr sections
        \<and> sections (u ''title'') = Some (u ''Other''))
   \<and> (\<exists>sections.
        parse_markdown_file \<lparr>filename = u ''US-003-notes.md'', text_of = Some (u ''# Notes'')\<rparr>
          = Inr sections
        \<and> sections (u ''title'') = Some (u ''Unknown Title''))"
proof -
  let ?c = "u ''intro\<newline># US-002: Other\<newline># US-001: Mine''"
  let ?f = "\<lparr>filename = u ''US-001-setup.md'', text_of = Some ?c\<rparr>"
  let ?d = "u ''# Notes''"
  let ?g = "\<lparr>filename = u ''US-003-notes.md'', text_of = Some ?d\<rparr>"
  have h: "text_of ?f = Some ?c" by simp
  have hg: "text_of ?g = Some ?d" by simp
  note f_facts = title_is_first_title_line [of _ _ ?f ?c, THEN conjunct2, THEN mp, OF h]
  note g_facts = title_is_first_title_line [of _ _ ?g ?d, THEN conjunct2, THEN mp, OF hg]
  have before: "\<forall>l' \<in> set [u ''intro'']. match_title_line l' = None"
    by (simp add: title_line_example)
  have lines_d: "split_on 0x0A ?d = [?d]"
    by (simp add: u_def)
  have no_title: "match_title_line ?d = None"
    by (simp add: match_title_line_def u_def)
  have none_d: "\<forall>l \<in> set (split_on 0x0A ?d). match_title_line l = None"
    unfolding lines_d using no_title by simp
  from f_facts have first_file: "\<exists>sections. parse_markdown_file ?f = Inr sections
      \<and> sections (u ''title'') = Some (u ''Other'')"
  proof (elim exE conjE)
    fix sections
    assume p: "parse_markdown_file ?f = Inr sections"
      and first: "\<forall>before l t after.
        split_on 0x0A ?c = before @ l # after
        \<and> (\<forall>l' \<in> set before. match_title_line l' = None)
        \<and> match_title_line l = Some t
        \<longrightarrow> sections (u ''title'') = Some t"
    from first have "split_on 0x0A ?c = [u ''intro''] @ u ''# US-002: Other'' # [u ''# US-001: Mine'']
        \<and> (\<forall>l' \<in> set [u ''intro'']. match_title_line l' = None)
        \<and> match_title_line (u ''# US-002: Other'') = Some (u ''Other'')
        \<longrightarrow> sections (u ''title'') = Some (u ''Other'')"
      by (elim allE)
    then have "sections (u ''title'') = Some (u ''Other'')"
      using split_example before title_line_example(1) by (elim impE) (intro conjI)
    with p show ?thesis by (intro exI conjI)
  qed
  from g_facts have second_file: "\<exists>sections. parse_markdown_file ?g = Inr sections
      \<and> sections (u ''title'') = Some (u ''Unknown Title'')"
  proof (elim exE conjE)
    fix sections
    assume p: "parse_markdown_file ?g = Inr sections"
      and none: "(\<forall>l \<in> set (split_on 0x0A ?d). match_title_line l = None) \<longrightarrow>
        sections (u ''title'') = Some (u ''Unknown Title'')"
    from none none_d have "sections (u ''title'') = Some (u ''Unknown Title'')"
      by (rule mp)
    with p show ?thesis by (intro exI conjI)
  qed
  show ?thesis
    by (intro conjI) (rule h, rule first_file, rule second_file)
qed

theorem title_is_first_title_line_counterexample:
  "parse_markdown_file
     \<lparr>filename = u ''US-001-setup.md'',
      text_of = Some (u ''# US-002: Other\<newline># US-001: Mine'')\<rparr>
     = Inr (parse_content (u ''US-001-setup'') (u ''# US-002: Other\<newline># US-001: Mine''))
   \<and> parse_content (u ''US-001-setup'') (u ''# US-002: Other\<newline># US-001: Mine'')
         (u ''story_id'') = Some (u ''US-001'')
   \<and> parse_content (u ''US-001-setup'') (u ''# US-002: Other\<newline># US-001: Mine'')
         (u ''title'') = Some (u ''Other'')
   \<and> claimed_title (u ''US-001'') (u ''# US-002: Other\<newline># US-001: Mine'') = u ''Mine''
   \<and> parse_content (u ''US-001-setup'') (u ''# US-002: Other\<newline># US-001: Mine'')
         (u ''title'')
       \<noteq> Some (claimed_title (u ''US-001'') (u ''# US-002: Other\<newline># US-001: Mine''))"
proof -
  let ?c = "u ''# US-002: Other\<newline># US-001: Mine''"
  have stem: "path_stem (u ''US-001-setup.md'') = u ''US-001-setup''"
    by (simp add: path_stem_def u_def)
  have p: "parse_markdown_file \<lparr>filename = u ''US-001-setup.md'', text_of = Some ?c\<rparr>
      = Inr (parse_content (u ''US-001-setup'') ?c)"
    by (simp add: parse_markdown_file_def stem)
  have sid: "join (u ''-'') (take 2 (split_on 0x2D (u ''US-001-setup''))) = u ''US-001''"
    by (simp add: u_def)
  have lines: "split_on 0x0A ?c = [u ''# US-002: Other'', u ''# US-001: Mine'']"
    by (simp add: u_def)
  have title: "search_title ?c = Some (u ''Other'')"
    by (simp add: search_title_def lines title_line_example)
  have c1: "claimed_title_line (u ''US-001'') (u ''# US-002: Other'') = None"
    by (simp add: claimed_title_line_def u_def)
  have c2: "claimed_title_line (u ''US-001'') (u ''# US-001: Mine'') = Some (u ''Mine'')"
    by (simp add: claimed_title_line_def u_def)
  have claimed: "claimed_title (u ''US-001'') ?c = u ''Mine''"
    by (simp add: claimed_title_def lines c1 c2 group_or_def)
  have differ: "u ''Other'' \<noteq> u ''Mine''"
    by (simp add: u_def)
  show ?thesis
    using differ
    by (simp add: p parse_content_story_id sid parse_content_title title claimed group_or_def)
qed

section \<open>Properties of the entry point\<close>

text \<open>
  C9: when the user-stories directory does not exist, the run prints one line, the
  diagnostic that ends with the missing path, and ends with exit status 1; it lists no
  directory and reads no story file.
\<close>

theorem missing_directory_is_fatal:
  "\<not> dir_exists user_stories_dir \<longrightarrow>
     main user_stories_dir argv =
       ([Print (u ''ERROR: User stories directory not found: '' @ dir_path user_stories_dir)],
        Exited 1)
     \<and> contains (dir_path user_stories_dir)
         (u ''ERROR: User stories directory not found: '' @ dir_path user_stories_dir)
     \<and> Glob \<notin> set (fst (main user_stories_dir argv))
     \<and> (\<forall>name. ReadText name \<notin> set (fst (main user_stories_dir argv)))
     \<and> snd (main user_stories_dir argv) \<noteq> Exited 0
     \<and> snd (main user_stories_dir argv) \<noteq> Returned"
proof -
  have "contains p (m @ p)" for p m :: pystr
    unfolding contains_iff by (rule exI [of _ m], rule exI [of _ "[]"]) simp
  then show ?thesis by (simp add: main_def)
qed

theorem missing_directory_is_fatal_witness:
  "\<not> dir_exists \<lparr>dir_path = u ''/repo/docs/user-stories'', dir_exists = False, dir_glob = []\<rparr>
   \<and> main \<lparr>dir_path = u ''/repo/docs/user-stories'', dir_exists = False, dir_glob = []\<rparr> []
       = ([Print (u ''ERROR: User stories directory not found: /repo/docs/user-stories'')],
          Exited 1)"
proof -
  have h: "\<not> dir_exists
      \<lparr>dir_path = u ''/repo/docs/user-stories'', dir_exists = False, dir_glob = []\<rparr>"
    by simp
  have "u ''ERROR: User stories directory not found: '' @ u ''/repo/docs/user-stories''
      = u ''ERROR: User stories directory not found: /repo/docs/user-stories''"
    by (simp add: u_def)
  then show ?thesis
    using h missing_directory_is_fatal
      [of "\<lparr>dir_path = u ''/repo/docs/user-stories'', dir_exists = False, dir_glob = []\<rparr>" "[]"]
    by simp
qed

end
